theory Spec2Isabelle
  imports Main "HOL-Library.AList"
begin

section \<open>The host language: strings, slices, integers, errors\<close>

text \<open>
  The development embeds \<^verbatim>\<open>mdtraj/formats/pdb/pdbstructure.py\<close>. A line
  of the input stream is a \<open>string\<close>; its characters are the code points 0..255.
  Every exception the source can raise is a value of \<open>error\<close>, and a function
  that can raise returns \<open>error + 'a\<close> with \<open>Inl\<close> for the exception.
\<close>

datatype error =
  AttributeError | ValueError | IndexError | KeyError | TypeError
  | OverflowError | AssertionError

text \<open>\<^verbatim>\<open>line.find(p) == 0\<close> for a non-empty \<open>p\<close>, \<^verbatim>\<open>s[a:b]\<close>
  and \<^verbatim>\<open>s[i]\<close>.\<close>

definition startswith :: "string \<Rightarrow> string \<Rightarrow> bool" where
  "startswith p s = (take (length p) s = p)"

definition slice :: "nat \<Rightarrow> nat \<Rightarrow> string \<Rightarrow> string" where
  "slice a b s = take (b - a) (drop a s)"

definition char_at :: "string \<Rightarrow> nat \<Rightarrow> error + char" where
  "char_at s i = (if i < length s then Inr (s ! i) else Inl IndexError)"

text \<open>\<^verbatim>\<open>str.isspace\<close> on the code points 0..255: the characters that
  \<^verbatim>\<open>strip()\<close> removes and \<^verbatim>\<open>split()\<close> splits at.\<close>

definition is_space :: "char \<Rightarrow> bool" where
  "is_space c = ((of_char c :: int) \<in> {9, 10, 11, 12, 13, 28, 29, 30, 31, 32, 133, 160})"

definition strip :: "string \<Rightarrow> string" where
  "strip s = rev (dropWhile is_space (rev (dropWhile is_space s)))"

text \<open>\<^verbatim>\<open>s.split()[0]\<close> for a string that has a token.\<close>

definition first_token :: "string \<Rightarrow> string" where
  "first_token s = takeWhile (\<lambda>c. \<not> is_space c) (dropWhile is_space s)"

text \<open>\<^verbatim>\<open>s.rstrip(" ")\<close>: only blanks are removed.\<close>

definition rstrip_blank :: "string \<Rightarrow> string" where
  "rstrip_blank s = rev (dropWhile (\<lambda>c. c = CHR '' '') (rev s))"

text \<open>
  \<^verbatim>\<open>int(s, base)\<close> for the bases the source uses (10, 16, 36), \<open>None\<close>
  being ValueError. The builtin skips white space at both ends (the characters of
  \<open>int_space\<close>; unlike \<open>strip\<close> it keeps the separators 28..31), reads one
  optional sign, for base 16 an optional \<^verbatim>\<open>0x\<close> prefix, then at least one
  digit, with single underscores allowed between digits.
\<close>

definition int_space :: "char \<Rightarrow> bool" where
  "int_space c = ((of_char c :: int) \<in> {9, 10, 11, 12, 13, 32, 133, 160})"

definition digit_val :: "char \<Rightarrow> int option" where
  "digit_val c =
     (let n = (of_char c :: int) in
      if 48 \<le> n \<and> n \<le> 57 then Some (n - 48)
      else if 97 \<le> n \<and> n \<le> 122 then Some (n - 87)
      else if 65 \<le> n \<and> n \<le> 90 then Some (n - 55)
      else None)"

fun py_digits :: "int \<Rightarrow> int \<Rightarrow> string \<Rightarrow> int option" where
  "py_digits b acc [] = Some acc"
| "py_digits b acc (c # cs) =
     (if c = CHR ''_'' then
        (case cs of [] \<Rightarrow> None
         | d # ds \<Rightarrow> if d = CHR ''_'' then None else py_digits b acc cs)
      else
        (case digit_val c of None \<Rightarrow> None
         | Some v \<Rightarrow> if v < b then py_digits b (acc * b + v) cs else None))"

definition py_unsigned :: "int \<Rightarrow> string \<Rightarrow> int option" where
  "py_unsigned b s =
     (let t = (if b = 16 \<and> (take 2 s = ''0x'' \<or> take 2 s = ''0X'')
               then (if take 1 (drop 2 s) = ''_'' then drop 3 s else drop 2 s)
               else s)
      in case t of [] \<Rightarrow> None
         | c # cs \<Rightarrow> if c = CHR ''_'' then None else py_digits b 0 t)"

definition py_int :: "int \<Rightarrow> string \<Rightarrow> int option" where
  "py_int b s =
     (let t = rev (dropWhile int_space (rev (dropWhile int_space s))) in
      case t of [] \<Rightarrow> None
      | c # cs \<Rightarrow>
          if c = CHR ''-'' then map_option uminus (py_unsigned b cs)
          else if c = CHR ''+'' then py_unsigned b cs
          else py_unsigned b t)"

definition int_of_str :: "int \<Rightarrow> string \<Rightarrow> error + int" where
  "int_of_str b s = (case py_int b s of None \<Rightarrow> Inl ValueError | Some n \<Rightarrow> Inr n)"

text \<open>Sequencing of calls that can raise: the first exception ends the computation.\<close>

definition and_then :: "error + 'a \<Rightarrow> ('a \<Rightarrow> error + 'b) \<Rightarrow> error + 'b" where
  "and_then m f = (case m of Inl e \<Rightarrow> Inl e | Inr x \<Rightarrow> f x)"

fun map_err :: "('a \<Rightarrow> error + 'b) \<Rightarrow> 'a list \<Rightarrow> error + 'b list" where
  "map_err f [] = Inr []"
| "map_err f (x # xs) =
     and_then (f x) (\<lambda>y. and_then (map_err f xs) (\<lambda>ys. Inr (y # ys)))"

section \<open>The hierarchy: Location, Atom, Residue, Chain, Model, PdbStructure\<close>

text \<open>
  Floating point values are not interpreted: the type \<open>'f\<close> stands for them, and the
  builtin \<^verbatim>\<open>float\<close> is a parameter \<open>fl :: string \<Rightarrow> 'f option\<close> of every
  function that reads a line (\<open>None\<close> is its ValueError). Occupancy and temperature
  factor are \<open>None\<close> where the source falls back to its default (1.0 and 0.0).

  A Python dict is an association list in insertion order (\<open>map_of\<close> reads it,
  \<open>AList.update\<close> writes it). The element table of \<^verbatim>\<open>mdtraj.core.element\<close>
  is outside this file; the attribute \<^verbatim>\<open>element\<close> is computed under
  \<^verbatim>\<open>try\<close>/\<^verbatim>\<open>except\<close>, influences nothing else and is left out,
  as are the lookup tables \<^verbatim>\<open>models_by_number\<close>, \<^verbatim>\<open>chains_by_id\<close>,
  \<^verbatim>\<open>residues_by_num_icode\<close> and \<^verbatim>\<open>residues_by_number\<close>, which
  no code path of the file reads back while loading or writing.
\<close>

record 'f location =
  loc_alternate_location_indicator :: char
  position :: "'f \<times> 'f \<times> 'f"
  occupancy :: "'f option"
  temperature_factor :: "'f option"
  residue_name :: string

text \<open>
  The first two attributes are the ones an Atom already has when
  \<^verbatim>\<open>Atom.__init__\<close> calls \<^verbatim>\<open>_read_residue_number(..., self)\<close>;
  the resolver reads only these, so it takes any record that has them.
\<close>

record atom_names =
  name_with_spaces :: string
  residue_name_with_spaces :: string

record 'f atom = atom_names +
  record_name :: string
  serial_number :: int
  chain_id :: char
  residue_number :: int
  insertion_code :: char
  locations :: "(char \<times> 'f location) list"
  default_location_id :: char
  segment_id :: string
  element_symbol :: string
  formal_charge :: "int option"
  model_number :: "int option"
  is_first_atom_in_chain :: bool
  is_final_atom_in_chain :: bool
  is_first_residue_in_chain :: bool
  is_final_residue_in_chain :: bool

text \<open>
  \<^verbatim>\<open>Residue.locations\<close> maps an alternate-location id to a
  \<^verbatim>\<open>Residue.Location\<close>, whose content besides the id is the residue name at
  that location. \<^verbatim>\<open>Residue.name_with_spaces\<close> is a property reading the
  name stored for \<^verbatim>\<open>primary_location_id\<close>; the constructor stores its
  \<^verbatim>\<open>name\<close> argument there and nothing in the file changes it, so the
  record keeps it as the field \<open>r_name_with_spaces\<close>.
  \<^verbatim>\<open>atoms_by_name\<close> holds references to the Atom objects of
  \<^verbatim>\<open>atoms\<close>: a reference is the position of the Atom in \<open>atoms\<close>.
\<close>

record 'f residue =
  primary_location_id :: char
  r_segment_id :: string
  r_locations :: "(char \<times> string) list"
  r_name_with_spaces :: string
  number :: int
  r_insertion_code :: char
  atoms :: "'f atom list"
  atoms_by_name :: "(string \<times> nat) list"
  is_first_in_chain :: bool
  is_final_in_chain :: bool

record 'f chain =
  c_chain_id :: char
  residues :: "'f residue list"
  has_ter_record :: bool

record 'f model =
  m_number :: int
  chains :: "'f chain list"
  connects :: "int list list"

text \<open>
  A PdbStructure with the state of the two counter resolvers. The decode mode of a
  resolver is \<^verbatim>\<open>None\<close> or one of the three functions of its table, named
  here as the source's comments name them. \<^verbatim>\<open>_current_model\<close>,
  \<^verbatim>\<open>_current_chain\<close> and \<^verbatim>\<open>_current_residue\<close> are assigned only
  where the object is appended to its list (\<^verbatim>\<open>_add_model\<close>,
  \<^verbatim>\<open>_add_chain\<close>, \<^verbatim>\<open>_add_residue\<close>), so each refers to the last
  element of the list, or is \<^verbatim>\<open>None\<close> while the list is empty.
\<close>

datatype num_mode = Hex | Chimera | Overflow

record 'f pdbstructure =
  atom_num_nondec_mode :: "num_mode option"
  residue_num_nondec_mode :: "num_mode option"
  next_atom_number :: int
  next_residue_number :: int
  load_all_models :: bool
  models :: "'f model list"
  unit_cell_lengths :: "('f \<times> 'f \<times> 'f) option"
  unit_cell_angles :: "('f \<times> 'f \<times> 'f) option"

definition current_model :: "'f pdbstructure \<Rightarrow> 'f model option" where
  "current_model pdb = (if models pdb = [] then None else Some (last (models pdb)))"

definition current_chain :: "'f model \<Rightarrow> 'f chain option" where
  "current_chain m = (if chains m = [] then None else Some (last (chains m)))"

definition current_residue :: "'f chain \<Rightarrow> 'f residue option" where
  "current_residue c = (if residues c = [] then None else Some (last (residues c)))"

text \<open>Writing through the reference: the last element is replaced.\<close>

definition set_current_model :: "'f model \<Rightarrow> 'f pdbstructure \<Rightarrow> 'f pdbstructure" where
  "set_current_model m pdb = pdb\<lparr>models := butlast (models pdb) @ [m]\<rparr>"

definition set_current_chain :: "'f chain \<Rightarrow> 'f model \<Rightarrow> 'f model" where
  "set_current_chain c m = m\<lparr>chains := butlast (chains m) @ [c]\<rparr>"

definition set_current_residue :: "'f residue \<Rightarrow> 'f chain \<Rightarrow> 'f chain" where
  "set_current_residue r c = c\<lparr>residues := butlast (residues c) @ [r]\<rparr>"

text \<open>The diagnostics of \<^verbatim>\<open>warnings.warn\<close>, by call site, with the values
  their messages print.\<close>

datatype warning =
  GuessAtomNumber string int
  | GuessResidueNumber string int int
  | ConsecutiveResidues int int
  | ChargeNotParsed int

section \<open>The counter-overflow resolver\<close>

definition reset_atom_numbers :: "'f pdbstructure \<Rightarrow> 'f pdbstructure" where
  "reset_atom_numbers pdb = pdb\<lparr>atom_num_nondec_mode := None, next_atom_number := 1\<rparr>"

definition reset_residue_numbers :: "'f pdbstructure \<Rightarrow> 'f pdbstructure" where
  "reset_residue_numbers pdb =
     pdb\<lparr>residue_num_nondec_mode := None, next_residue_number := 1\<rparr>"

definition overflow_residue_check ::
  "string \<Rightarrow> 'f pdbstructure \<Rightarrow> 'z atom_names_scheme \<Rightarrow> int" where
  "overflow_residue_check num_str pdb curr_atom =
     (case current_model pdb of
        None \<Rightarrow> next_residue_number pdb
      | Some m \<Rightarrow>
          (case current_chain m of
             None \<Rightarrow> next_residue_number pdb
           | Some c \<Rightarrow>
               (case current_residue c of
                  None \<Rightarrow> next_residue_number pdb
                | Some currentRes \<Rightarrow>
                    if r_name_with_spaces currentRes \<noteq> residue_name_with_spaces curr_atom
                    then next_residue_number pdb
                    else if map_of (atoms_by_name currentRes) (name_with_spaces curr_atom)
                            \<noteq> None
                    then next_residue_number pdb
                    else number currentRes)))"

text \<open>The two tables of decoders, as lookups from the sentinel to the mode, and the
  decoders themselves. \<^verbatim>\<open>s[0]\<close> raises IndexError on the empty string.\<close>

definition atom_num_initial_nondecimal_functions :: "string \<Rightarrow> num_mode option" where
  "atom_num_initial_nondecimal_functions s =
     (if s = ''186a0'' then Some Hex
      else if s = ''A0000'' then Some Chimera
      else if s = ''*****'' then Some Overflow
      else None)"

definition residue_num_initial_nondecimal_functions :: "string \<Rightarrow> num_mode option" where
  "residue_num_initial_nondecimal_functions s =
     (if s = ''2710'' then Some Hex
      else if s = ''A000'' then Some Chimera
      else if s = ''****'' then Some Overflow
      else None)"

definition chimera :: "nat \<Rightarrow> string \<Rightarrow> error + int" where
  "chimera k s =
     (case s of
        [] \<Rightarrow> Inl IndexError
      | c # cs \<Rightarrow>
          and_then (int_of_str 36 [c]) (\<lambda>high.
          and_then (int_of_str 36 cs) (\<lambda>low. Inr (high * 10 ^ k + low))))"

definition atom_num_function :: "num_mode \<Rightarrow> string \<Rightarrow> 'f pdbstructure \<Rightarrow> error + int" where
  "atom_num_function mode s y =
     (case mode of
        Hex \<Rightarrow> int_of_str 16 s
      | Chimera \<Rightarrow> chimera 4 s
      | Overflow \<Rightarrow> Inr (next_atom_number y))"

definition residue_num_function ::
  "num_mode \<Rightarrow> string \<Rightarrow> 'f pdbstructure \<Rightarrow> 'z atom_names_scheme \<Rightarrow> error + int" where
  "residue_num_function mode s y z =
     (case mode of
        Hex \<Rightarrow> int_of_str 16 s
      | Chimera \<Rightarrow> chimera 3 s
      | Overflow \<Rightarrow> Inr (overflow_residue_check s y z))"

definition is_upper :: "string \<Rightarrow> error + bool" where
  "is_upper num_str =
     (case num_str of
        [] \<Rightarrow> Inl IndexError
      | c # cs \<Rightarrow> Inr (65 \<le> (of_char c :: int) \<and> (of_char c :: int) \<le> 90))"

definition check_overflow_eligibility :: "string \<Rightarrow> string \<Rightarrow> error + bool" where
  "check_overflow_eligibility num_str str_type =
     (if str_type = ''atom'' \<and> atom_num_initial_nondecimal_functions num_str \<noteq> None
      then Inr True
      else if str_type = ''residue''
              \<and> residue_num_initial_nondecimal_functions num_str \<noteq> None
      then Inr True
      else is_upper num_str)"

text \<open>
  \<^verbatim>\<open>_read_atom_number(num_str, pdbstructure)\<close> with a PdbStructure given, as
  every call of the loader gives one: the body of the \<^verbatim>\<open>try\<close>, the handler
  of \<^verbatim>\<open>except (AttributeError, ValueError, OverflowError, KeyError)\<close>, and
  the function. The result carries the PdbStructure, whose mode the call may lock, and
  the diagnostics. Calling the mode \<^verbatim>\<open>None\<close> is the TypeError of the handler.
\<close>

definition read_atom_number_try :: "string \<Rightarrow> 'f pdbstructure \<Rightarrow> error + int" where
  "read_atom_number_try num_str pdb =
     (case atom_num_nondec_mode pdb of
        Some mode \<Rightarrow> atom_num_function mode num_str pdb
      | None \<Rightarrow>
          if next_atom_number pdb > 99999 then
            and_then (check_overflow_eligibility num_str ''atom'') (\<lambda>eligible.
              if eligible then Inl OverflowError else int_of_str 10 num_str)
          else int_of_str 10 num_str)"

definition read_atom_number_except ::
  "string \<Rightarrow> 'f pdbstructure \<Rightarrow> error + (int \<times> 'f pdbstructure \<times> warning list)" where
  "read_atom_number_except num_str pdb =
     and_then
       (if atom_num_nondec_mode pdb = None then
          (case atom_num_initial_nondecimal_functions num_str of
             Some mode \<Rightarrow> Inr (pdb\<lparr>atom_num_nondec_mode := Some mode\<rparr>)
           | None \<Rightarrow>
               and_then (is_upper num_str) (\<lambda>upper.
                 Inr (if upper then pdb\<lparr>atom_num_nondec_mode := Some Chimera\<rparr> else pdb)))
        else Inr pdb)
       (\<lambda>pdb1.
          case (case atom_num_nondec_mode pdb1 of
                  None \<Rightarrow> Inl TypeError
                | Some mode \<Rightarrow> atom_num_function mode num_str pdb1) of
            Inr n \<Rightarrow> Inr (n, pdb1, [])
          | Inl e \<Rightarrow>
              if e = ValueError \<or> e = KeyError \<or> e = TypeError then
                and_then
                  (atom_num_function Overflow num_str
                     (pdb1\<lparr>atom_num_nondec_mode := Some Overflow\<rparr>))
                  (\<lambda>n. Inr (n, pdb1\<lparr>atom_num_nondec_mode := Some Overflow\<rparr>,
                             [GuessAtomNumber num_str (next_atom_number pdb1)]))
              else Inl e)"

definition read_atom_number ::
  "string \<Rightarrow> 'f pdbstructure \<Rightarrow> error + (int \<times> 'f pdbstructure \<times> warning list)" where
  "read_atom_number num_str pdb =
     (case read_atom_number_try num_str pdb of
        Inr n \<Rightarrow> Inr (n, pdb, [])
      | Inl e \<Rightarrow>
          if e = AttributeError \<or> e = ValueError \<or> e = OverflowError \<or> e = KeyError
          then read_atom_number_except num_str pdb
          else Inl e)"

text \<open>The same call without a PdbStructure (\<^verbatim>\<open>pdbstructure=None\<close>): the
  attribute access raises AttributeError and the handler reads a decimal or gives 0.\<close>

definition read_atom_number_standalone :: "string \<Rightarrow> int" where
  "read_atom_number_standalone num_str =
     (case py_int 10 num_str of Some n \<Rightarrow> n | None \<Rightarrow> 0)"

text \<open>\<^verbatim>\<open>_read_residue_number(num_str, pdbstructure, curr_atom)\<close>, likewise.\<close>

definition read_residue_number_try ::
  "string \<Rightarrow> 'f pdbstructure \<Rightarrow> 'z atom_names_scheme \<Rightarrow> error + int" where
  "read_residue_number_try num_str pdb curr_atom =
     (case residue_num_nondec_mode pdb of
        Some mode \<Rightarrow> residue_num_function mode num_str pdb curr_atom
      | None \<Rightarrow>
          if next_residue_number pdb > 9999 then
            and_then (check_overflow_eligibility num_str ''residue'') (\<lambda>eligible.
              if eligible then Inl OverflowError else int_of_str 10 num_str)
          else int_of_str 10 num_str)"

definition read_residue_number_except ::
  "string \<Rightarrow> 'f pdbstructure \<Rightarrow> 'z atom_names_scheme
     \<Rightarrow> error + (int \<times> 'f pdbstructure \<times> warning list)" where
  "read_residue_number_except num_str pdb curr_atom =
     and_then
       (if residue_num_nondec_mode pdb = None then
          (case residue_num_initial_nondecimal_functions num_str of
             Some mode \<Rightarrow> Inr (pdb\<lparr>residue_num_nondec_mode := Some mode\<rparr>)
           | None \<Rightarrow>
               and_then (is_upper num_str) (\<lambda>upper.
                 Inr (if upper then pdb\<lparr>residue_num_nondec_mode := Some Chimera\<rparr>
                      else pdb)))
        else Inr pdb)
       (\<lambda>pdb1.
          case (case residue_num_nondec_mode pdb1 of
                  None \<Rightarrow> Inl TypeError
                | Some mode \<Rightarrow> residue_num_function mode num_str pdb1 curr_atom) of
            Inr n \<Rightarrow> Inr (n, pdb1, [])
          | Inl e \<Rightarrow>
              if e = ValueError \<or> e = KeyError \<or> e = TypeError then
                and_then
                  (residue_num_function Overflow num_str
                     (pdb1\<lparr>residue_num_nondec_mode := Some Overflow\<rparr>) curr_atom)
                  (\<lambda>n. Inr (n, pdb1\<lparr>residue_num_nondec_mode := Some Overflow\<rparr>,
                             [GuessResidueNumber num_str (next_residue_number pdb1)
                                (next_atom_number pdb1)]))
              else Inl e)"

definition read_residue_number ::
  "string \<Rightarrow> 'f pdbstructure \<Rightarrow> 'z atom_names_scheme
     \<Rightarrow> error + (int \<times> 'f pdbstructure \<times> warning list)" where
  "read_residue_number num_str pdb curr_atom =
     (case read_residue_number_try num_str pdb curr_atom of
        Inr n \<Rightarrow> Inr (n, pdb, [])
      | Inl e \<Rightarrow>
          if e = AttributeError \<or> e = OverflowError \<or> e = KeyError \<or> e = ValueError
          then read_residue_number_except num_str pdb curr_atom
          else Inl e)"

definition read_residue_number_standalone :: "string \<Rightarrow> int" where
  "read_residue_number_standalone num_str =
     (case py_int 10 num_str of Some n \<Rightarrow> n | None \<Rightarrow> 0)"

section \<open>The record line parser: a coordinate record\<close>

text \<open>
  \<^verbatim>\<open>Atom.__init__(pdb_line, pdbstructure)\<close> with a PdbStructure given, in
  the order of the source: each step that can raise comes before the next is tried.
  The setter of \<^verbatim>\<open>name_with_spaces\<close> asserts four characters; the residue
  name takes a fourth character from column 21 only when the first three are full.
  The charge field is read as it stands, then reversed; when both fail the diagnostic
  is emitted (its message formats the Atom, which cannot raise at that point: the
  location is stored and the residue name has three or four characters).
\<close>

definition residue_name_field :: "string \<Rightarrow> error + string" where
  "residue_name_field pdb_line =
     (if slice 20 21 pdb_line = '' '' then Inr (slice 17 20 pdb_line)
      else if length (strip (slice 17 20 pdb_line)) = 3
      then Inr (slice 17 20 pdb_line @ slice 20 21 pdb_line)
      else Inl ValueError)"

definition float_of :: "(string \<Rightarrow> 'f option) \<Rightarrow> string \<Rightarrow> error + 'f" where
  "float_of fl s = (case fl s of None \<Rightarrow> Inl ValueError | Some x \<Rightarrow> Inr x)"

definition formal_charge_field :: "int \<Rightarrow> string \<Rightarrow> int option \<times> warning list" where
  "formal_charge_field serial pdb_line =
     (let charge_string = strip (slice 78 80 pdb_line) in
      if charge_string = [] then (None, [])
      else
        (case py_int 10 charge_string of
           Some n \<Rightarrow> (Some n, [])
         | None \<Rightarrow>
             (case py_int 10 (rev charge_string) of
                Some n \<Rightarrow> (Some n, [])
              | None \<Rightarrow> (None, [ChargeNotParsed serial]))))"

definition Atom_init ::
  "(string \<Rightarrow> 'f option) \<Rightarrow> string \<Rightarrow> 'f pdbstructure
     \<Rightarrow> error + ('f atom \<times> 'f pdbstructure \<times> warning list)" where
  "Atom_init fl pdb_line pdb =
     and_then (read_atom_number (slice 6 11 pdb_line) pdb) (\<lambda>(serial, pdb1, w1).
     and_then (if length (slice 12 16 pdb_line) = 4 then Inr (slice 12 16 pdb_line)
               else Inl AssertionError) (\<lambda>atom_name.
     and_then (char_at pdb_line 16) (\<lambda>alternate_location_indicator.
     and_then (residue_name_field pdb_line) (\<lambda>res_name.
     and_then (char_at pdb_line 21) (\<lambda>chain.
     and_then (read_residue_number (slice 22 26 pdb_line) pdb1
                 \<lparr>name_with_spaces = atom_name, residue_name_with_spaces = res_name\<rparr>)
       (\<lambda>(res_number, pdb2, w2).
     and_then (char_at pdb_line 26) (\<lambda>icode.
     and_then (float_of fl (slice 30 38 pdb_line)) (\<lambda>x.
     and_then (float_of fl (slice 38 46 pdb_line)) (\<lambda>y.
     and_then (float_of fl (slice 46 54 pdb_line)) (\<lambda>z.
       Inr (\<lparr>name_with_spaces = atom_name,
              residue_name_with_spaces = res_name,
              record_name = strip (slice 0 6 pdb_line),
              serial_number = serial,
              chain_id = chain,
              residue_number = res_number,
              insertion_code = icode,
              locations =
                [(alternate_location_indicator,
                  \<lparr>loc_alternate_location_indicator = alternate_location_indicator,
                   position = (x, y, z),
                   occupancy = fl (slice 54 60 pdb_line),
                   temperature_factor = fl (slice 60 66 pdb_line),
                   residue_name = res_name\<rparr>)],
              default_location_id = alternate_location_indicator,
              segment_id = strip (slice 72 76 pdb_line),
              element_symbol = strip (slice 76 78 pdb_line),
              formal_charge = fst (formal_charge_field serial pdb_line),
              model_number = None,
              is_first_atom_in_chain = False,
              is_final_atom_in_chain = False,
              is_first_residue_in_chain = False,
              is_final_residue_in_chain = False\<rparr>,
            pdb2\<lparr>next_atom_number := serial + 1, next_residue_number := res_number + 1\<rparr>,
            w1 @ w2 @ snd (formal_charge_field serial pdb_line))))))))))))"

section \<open>The hierarchy builder\<close>

text \<open>The properties \<^verbatim>\<open>Atom.location\<close> and
  \<^verbatim>\<open>Atom.alternate_location_indicator\<close>: a lookup under
  \<^verbatim>\<open>default_location_id\<close>, KeyError when it is missing.\<close>

definition get_location :: "'f atom \<Rightarrow> error + 'f location" where
  "get_location a =
     (case map_of (locations a) (default_location_id a) of
        None \<Rightarrow> Inl KeyError
      | Some loc \<Rightarrow> Inr loc)"

definition alternate_location_indicator :: "'f atom \<Rightarrow> error + char" where
  "alternate_location_indicator a = and_then (get_location a) (\<lambda>loc. Inr (loc_alternate_location_indicator loc))"

text \<open>
  What \<^verbatim>\<open>_pdb_string\<close> formats into the columns of one output line (the text
  itself is not modelled). The coordinates, occupancy and temperature factor are those
  of the default location, whatever alternate-location id is printed. The assertion
  on the padded residue name holds exactly for names of three or four characters.
\<close>

record 'f atom_line =
  l_record_name :: string
  l_serial_number :: int
  l_name_with_spaces :: string
  l_alt_loc :: char
  l_long_res_name :: string
  l_chain_id :: char
  l_residue_number :: int
  l_insertion_code :: char
  l_position :: "'f \<times> 'f \<times> 'f"
  l_occupancy :: "'f option"
  l_temperature_factor :: "'f option"
  l_segment_id :: string
  l_element_symbol :: string
  l_formal_charge :: "int option"

definition pdb_string :: "'f atom \<Rightarrow> int \<Rightarrow> char \<Rightarrow> error + 'f atom_line" where
  "pdb_string a serial alt =
     (if length (residue_name_with_spaces a) = 3 \<or> length (residue_name_with_spaces a) = 4
      then
        and_then (get_location a) (\<lambda>loc.
          Inr \<lparr>l_record_name = record_name a,
               l_serial_number = serial,
               l_name_with_spaces = name_with_spaces a,
               l_alt_loc = alt,
               l_long_res_name =
                 (if length (residue_name_with_spaces a) = 3
                  then residue_name_with_spaces a @ '' ''
                  else residue_name_with_spaces a),
               l_chain_id = chain_id a,
               l_residue_number = residue_number a,
               l_insertion_code = insertion_code a,
               l_position = position loc,
               l_occupancy = occupancy loc,
               l_temperature_factor = temperature_factor loc,
               l_segment_id = segment_id a,
               l_element_symbol = element_symbol a,
               l_formal_charge = formal_charge a\<rparr>)
      else Inl AssertionError)"

text \<open>\<^verbatim>\<open>str(atom)\<close>: the indicator is read first, then the line is formatted.\<close>

definition Atom_str :: "'f atom \<Rightarrow> error + 'f atom_line" where
  "Atom_str a =
     and_then (alternate_location_indicator a) (\<lambda>alt. pdb_string a (serial_number a) alt)"

definition Residue_init :: "string \<Rightarrow> int \<Rightarrow> char \<Rightarrow> char \<Rightarrow> string \<Rightarrow> 'f residue" where
  "Residue_init name num icode primary_alternate_location_indicator seg =
     \<lparr>primary_location_id = primary_alternate_location_indicator,
      r_segment_id = seg,
      r_locations = [(primary_alternate_location_indicator, name)],
      r_name_with_spaces = name,
      number = num,
      r_insertion_code = icode,
      atoms = [],
      atoms_by_name = [],
      is_first_in_chain = False,
      is_final_in_chain = False\<rparr>"

text \<open>
  \<^verbatim>\<open>Residue._add_atom\<close>. The branch for a duplicated atom is
  \<^verbatim>\<open>pass\<close> (its warning is commented out in the source), after which control
  reaches the statements under "actually use new atom"; only the branch that merges a
  new alternate location returns early. No path emits a diagnostic: the list returned
  is empty. A stored position that is not below the length of \<open>atoms\<close> stands for no
  object; the source cannot produce one, and the lookup then counts as failed.
\<close>

definition use_new_atom :: "'f atom \<Rightarrow> 'f residue \<Rightarrow> 'f residue" where
  "use_new_atom a r =
     r\<lparr>atoms_by_name :=
         AList.update (name_with_spaces a) (length (atoms r))
           (AList.update (strip (name_with_spaces a)) (length (atoms r)) (atoms_by_name r)),
       atoms := atoms r @ [a]\<rparr>"

definition merge_locations ::
  "(char \<times> 'f location) list \<Rightarrow> (char \<times> 'f location) list \<Rightarrow> (char \<times> 'f location) list" where
  "merge_locations new old = fold (\<lambda>kv. AList.update (fst kv) (snd kv)) new old"

definition Residue_add_atom ::
  "'f atom \<Rightarrow> 'f residue \<Rightarrow> error + ('f residue \<times> warning list)" where
  "Residue_add_atom a r =
     and_then (alternate_location_indicator a) (\<lambda>alt.
       let r1 = (if map_of (r_locations r) alt = None
                 then r\<lparr>r_locations := r_locations r @ [(alt, residue_name_with_spaces a)]\<rparr>
                 else r)
       in
       if residue_number a \<noteq> number r1 then Inl AssertionError
       else if insertion_code a \<noteq> r_insertion_code r1 then Inl AssertionError
       else
         (case map_of (atoms_by_name r1) (name_with_spaces a) of
            None \<Rightarrow> Inr (use_new_atom a r1, [])
          | Some i \<Rightarrow>
              if length (atoms r1) \<le> i then Inl KeyError
              else if map_of (locations (atoms r1 ! i)) alt \<noteq> None
              then Inr (use_new_atom a r1, [])
              else
                Inr (r1\<lparr>atoms := (atoms r1)
                          [i := (atoms r1 ! i)
                             \<lparr>locations :=
                                merge_locations (locations a) (locations (atoms r1 ! i))\<rparr>]\<rparr>,
                     [])))"

definition Chain_init :: "char \<Rightarrow> 'f chain" where
  "Chain_init cid = \<lparr>c_chain_id = cid, residues = [], has_ter_record = False\<rparr>"

definition Chain_add_residue :: "'f residue \<Rightarrow> 'f chain \<Rightarrow> 'f chain" where
  "Chain_add_residue r c =
     c\<lparr>residues :=
         residues c @ [if residues c = [] then r\<lparr>is_first_in_chain := True\<rparr> else r]\<rparr>"

text \<open>
  \<^verbatim>\<open>Chain._add_atom\<close>. \<open>open_residue\<close> is the statement
  \<^verbatim>\<open>self._add_residue(Residue(atom.residue_name_with_spaces, ...))\<close> that four
  branches share. The last branch formats both atoms into the message of its warning
  before it opens the residue.
\<close>

definition open_residue :: "'f atom \<Rightarrow> 'f chain \<Rightarrow> error + 'f chain" where
  "open_residue a c =
     and_then (alternate_location_indicator a) (\<lambda>alt.
       Inr (Chain_add_residue
              (Residue_init (residue_name_with_spaces a) (residue_number a)
                 (insertion_code a) alt (segment_id a)) c))"

definition warn_consecutive :: "'f atom \<Rightarrow> 'f residue \<Rightarrow> error + warning list" where
  "warn_consecutive a cur =
     and_then (Atom_str a) (\<lambda>line1.
       if atoms cur = [] then Inl IndexError
       else and_then (Atom_str (last (atoms cur))) (\<lambda>line2.
              Inr [ConsecutiveResidues (l_serial_number line1) (l_serial_number line2)]))"

definition Chain_select_residue ::
  "'f atom \<Rightarrow> 'f chain \<Rightarrow> error + ('f chain \<times> warning list)" where
  "Chain_select_residue a c =
     (case current_residue c of
        None \<Rightarrow> and_then (open_residue a c) (\<lambda>c1. Inr (c1, []))
      | Some cur \<Rightarrow>
          if number cur \<noteq> residue_number a then
            and_then (open_residue a c) (\<lambda>c1. Inr (c1, []))
          else if r_insertion_code cur \<noteq> insertion_code a then
            and_then (open_residue a c) (\<lambda>c1. Inr (c1, []))
          else if r_name_with_spaces cur = residue_name_with_spaces a then Inr (c, [])
          else
            and_then (alternate_location_indicator a) (\<lambda>alt.
              if alt \<noteq> CHR '' '' then Inr (c, [])
              else
                and_then (warn_consecutive a cur) (\<lambda>w.
                and_then (open_residue a c) (\<lambda>c1. Inr (c1, w)))))"

definition Chain_add_atom ::
  "'f atom \<Rightarrow> 'f chain \<Rightarrow> error + ('f chain \<times> warning list)" where
  "Chain_add_atom a c =
     and_then (Chain_select_residue a c) (\<lambda>(c1, w).
       case current_residue c1 of
         None \<Rightarrow> Inl AttributeError
       | Some cur \<Rightarrow>
           and_then (Residue_add_atom a cur) (\<lambda>(r, w1).
             Inr (set_current_residue r c1, w @ w1)))"

definition Model_init :: "int \<Rightarrow> 'f model" where
  "Model_init num = \<lparr>m_number = num, chains = [], connects = []\<rparr>"

definition Model_add_chain :: "'f chain \<Rightarrow> 'f model \<Rightarrow> 'f model" where
  "Model_add_chain c m = m\<lparr>chains := chains m @ [c]\<rparr>"

definition Model_add_atom ::
  "'f atom \<Rightarrow> 'f model \<Rightarrow> error + ('f model \<times> warning list)" where
  "Model_add_atom a m =
     (let m1 = (if chains m = [] then Model_add_chain (Chain_init (chain_id a)) m else m) in
      case current_chain m1 of
        None \<Rightarrow> Inl AttributeError
      | Some cur \<Rightarrow>
          (let m2 = (if c_chain_id cur \<noteq> chain_id a
                     then Model_add_chain (Chain_init (chain_id a)) m1
                     else if has_ter_record cur
                     then Model_add_chain (Chain_init (chain_id a)) m1
                     else m1)
           in case current_chain m2 of
                None \<Rightarrow> Inl AttributeError
              | Some cur2 \<Rightarrow>
                  and_then (Chain_add_atom a cur2) (\<lambda>(c, w).
                    Inr (set_current_chain c m2, w))))"

text \<open>The finalize pass: first and last flags. \<^verbatim>\<open>self.residues[0]\<close> raises
  IndexError on a chain without residues.\<close>

definition Residue_finalize :: "'f residue \<Rightarrow> 'f residue" where
  "Residue_finalize r =
     (if atoms r = [] then r
      else
        (let as1 = (atoms r)[0 := (atoms r ! 0)\<lparr>is_first_atom_in_chain := is_first_in_chain r\<rparr>];
             as2 = as1[length as1 - 1 :=
                         (as1 ! (length as1 - 1))
                           \<lparr>is_final_atom_in_chain := is_final_in_chain r\<rparr>]
         in r\<lparr>atoms :=
                map (\<lambda>a. a\<lparr>is_first_residue_in_chain := is_first_in_chain r,
                           is_final_residue_in_chain := is_final_in_chain r\<rparr>) as2\<rparr>))"

definition Chain_finalize :: "'f chain \<Rightarrow> error + 'f chain" where
  "Chain_finalize c =
     (if residues c = [] then Inl IndexError
      else
        (let rs1 = (residues c)[0 := (residues c ! 0)\<lparr>is_first_in_chain := True\<rparr>];
             rs2 = rs1[length rs1 - 1 := (rs1 ! (length rs1 - 1))\<lparr>is_final_in_chain := True\<rparr>]
         in Inr (c\<lparr>residues := map Residue_finalize rs2\<rparr>)))"

definition Chain_add_ter_record :: "'f chain \<Rightarrow> error + 'f chain" where
  "Chain_add_ter_record c = Chain_finalize (c\<lparr>has_ter_record := True\<rparr>)"

definition Model_finalize :: "'f model \<Rightarrow> error + 'f model" where
  "Model_finalize m =
     and_then (map_err Chain_finalize (chains m)) (\<lambda>cs. Inr (m\<lparr>chains := cs\<rparr>))"

definition PdbStructure_finalize :: "'f pdbstructure \<Rightarrow> error + 'f pdbstructure" where
  "PdbStructure_finalize pdb =
     and_then (map_err Model_finalize (models pdb)) (\<lambda>ms. Inr (pdb\<lparr>models := ms\<rparr>))"

definition PdbStructure_add_model :: "'f model \<Rightarrow> 'f pdbstructure \<Rightarrow> 'f pdbstructure" where
  "PdbStructure_add_model m pdb = pdb\<lparr>models := models pdb @ [m]\<rparr>"

definition PdbStructure_add_atom ::
  "'f atom \<Rightarrow> 'f pdbstructure \<Rightarrow> error + ('f pdbstructure \<times> warning list)" where
  "PdbStructure_add_atom a pdb =
     (let pdb1 = (if current_model pdb = None
                  then PdbStructure_add_model (Model_init 0) pdb else pdb)
      in case current_model pdb1 of
           None \<Rightarrow> Inl AttributeError
         | Some m \<Rightarrow>
             and_then (Model_add_atom (a\<lparr>model_number := Some (m_number m)\<rparr>) m) (\<lambda>(m1, w).
               Inr (set_current_model m1 pdb1, w)))"

section \<open>The loader\<close>

text \<open>The kind of a line: the conditions of the \<^verbatim>\<open>if\<close>/\<^verbatim>\<open>elif\<close>
  chain of \<^verbatim>\<open>_load\<close>, in its order.\<close>

datatype record_kind =
  Coordinate | ModelStart | ModelEnd | EndStructure | ChainTerminator
  | UnitCell | Connectivity | Unrecognized

definition record_kind :: "string \<Rightarrow> record_kind" where
  "record_kind pdb_line =
     (if startswith ''ATOM  '' pdb_line \<or> startswith ''HETATM'' pdb_line then Coordinate
      else if startswith ''MODEL'' pdb_line then ModelStart
      else if startswith ''ENDMDL'' pdb_line then ModelEnd
      else if startswith ''END'' pdb_line then EndStructure
      else if startswith ''TER'' pdb_line \<and> first_token pdb_line = ''TER''
      then ChainTerminator
      else if startswith ''CRYST1'' pdb_line then UnitCell
      else if startswith ''CONECT'' pdb_line then Connectivity
      else Unrecognized)"

text \<open>The local variable \<^verbatim>\<open>state\<close> of \<^verbatim>\<open>_load\<close>:
  \<^verbatim>\<open>None\<close> or \<^verbatim>\<open>"NEW_MODEL"\<close>.\<close>

datatype load_state = NoState | NEW_MODEL

text \<open>The atom numbers of a connectivity record, read one after the other.\<close>

fun read_connect ::
  "string \<Rightarrow> nat list \<Rightarrow> 'f pdbstructure \<Rightarrow> error + (int list \<times> 'f pdbstructure \<times> warning list)" where
  "read_connect pdb_line [] pdb = Inr ([], pdb, [])"
| "read_connect pdb_line (pos # ps) pdb =
     and_then (read_atom_number (slice pos (pos + 5) pdb_line) pdb) (\<lambda>(n, pdb1, w).
     and_then (read_connect pdb_line ps pdb1) (\<lambda>(ns, pdb2, w1).
       Inr (n # ns, pdb2, w @ w1)))"

definition connect_positions :: "string \<Rightarrow> nat list" where
  "connect_positions pdb_line =
     filter (\<lambda>p. int p \<le> int (length (rstrip_blank (butlast pdb_line))) - 5)
       [6, 11, 16, 21, 26]"

definition float_triple ::
  "(string \<Rightarrow> 'f option) \<Rightarrow> string \<Rightarrow> nat \<Rightarrow> nat \<Rightarrow> nat \<Rightarrow> nat \<Rightarrow> error + ('f \<times> 'f \<times> 'f)" where
  "float_triple fl s a b c d =
     and_then (float_of fl (slice a b s)) (\<lambda>x.
     and_then (float_of fl (slice b c s)) (\<lambda>y.
     and_then (float_of fl (slice c d s)) (\<lambda>z. Inr (x, y, z))))"

text \<open>
  One turn of the loop of \<^verbatim>\<open>_load\<close>. The result is the PdbStructure, the
  variable \<^verbatim>\<open>state\<close>, the diagnostics of the turn, and whether the turn
  ended in \<^verbatim>\<open>break\<close>.
\<close>

definition end_of_model ::
  "'f pdbstructure \<Rightarrow> load_state
     \<Rightarrow> error + ('f pdbstructure \<times> load_state \<times> warning list \<times> bool)" where
  "end_of_model pdb state =
     (case current_model pdb of
        None \<Rightarrow> Inl AttributeError
      | Some m \<Rightarrow>
          and_then (Model_finalize m) (\<lambda>m1.
            if load_all_models pdb
            then Inr (set_current_model m1 pdb, NEW_MODEL, [], False)
            else Inr (set_current_model m1 pdb, state, [], True)))"

definition load_line ::
  "(string \<Rightarrow> 'f option) \<Rightarrow> string \<Rightarrow> 'f pdbstructure \<Rightarrow> load_state
     \<Rightarrow> error + ('f pdbstructure \<times> load_state \<times> warning list \<times> bool)" where
  "load_line fl pdb_line pdb state =
     (case record_kind pdb_line of
        Coordinate \<Rightarrow>
          and_then
            (if state = NEW_MODEL then
               (case current_model pdb of
                  None \<Rightarrow> Inl AttributeError
                | Some m \<Rightarrow> Inr (PdbStructure_add_model (Model_init (m_number m + 1)) pdb))
             else Inr pdb) (\<lambda>pdb1.
          and_then (Atom_init fl pdb_line pdb1) (\<lambda>(a, pdb2, w).
          and_then (PdbStructure_add_atom a pdb2) (\<lambda>(pdb3, w1).
            Inr (pdb3, NoState, w @ w1, False))))
      | ModelStart \<Rightarrow>
          Inr (reset_residue_numbers (reset_atom_numbers
                 (PdbStructure_add_model
                    (Model_init (case current_model pdb of
                                   None \<Rightarrow> 0 | Some m \<Rightarrow> m_number m + 1)) pdb)),
               NoState, [], False)
      | ModelEnd \<Rightarrow> end_of_model pdb state
      | EndStructure \<Rightarrow> end_of_model pdb state
      | ChainTerminator \<Rightarrow>
          (case current_model pdb of
             None \<Rightarrow> Inl AttributeError
           | Some m \<Rightarrow>
               (case current_chain m of
                  None \<Rightarrow> Inl AttributeError
                | Some c \<Rightarrow>
                    and_then (Chain_add_ter_record c) (\<lambda>c1.
                      Inr (reset_residue_numbers
                             (set_current_model (set_current_chain c1 m) pdb),
                           state, [], False))))
      | UnitCell \<Rightarrow>
          and_then (float_triple fl pdb_line 6 15 24 33) (\<lambda>lengths.
          and_then (float_triple fl pdb_line 33 40 47 54) (\<lambda>angles.
            Inr (pdb\<lparr>unit_cell_lengths := Some lengths, unit_cell_angles := Some angles\<rparr>,
                 state, [], False)))
      | Connectivity \<Rightarrow>
          and_then (read_connect pdb_line (connect_positions pdb_line) pdb) (\<lambda>(ns, pdb1, w).
            case current_model pdb1 of
              None \<Rightarrow> Inl AttributeError
            | Some m \<Rightarrow>
                Inr (set_current_model (m\<lparr>connects := connects m @ [ns]\<rparr>) pdb1,
                     state, w, False))
      | Unrecognized \<Rightarrow> Inr (pdb, state, [], False))"

text \<open>The loop over the input stream. The third component of the result is what the
  loop left unread in the stream: the lines after the one that ended it.\<close>

fun load_lines ::
  "(string \<Rightarrow> 'f option) \<Rightarrow> 'f pdbstructure \<Rightarrow> load_state \<Rightarrow> string list
     \<Rightarrow> error + ('f pdbstructure \<times> warning list \<times> string list)" where
  "load_lines fl pdb state [] = Inr (pdb, [], [])"
| "load_lines fl pdb state (pdb_line # rest) =
     and_then (load_line fl pdb_line pdb state) (\<lambda>(pdb1, state1, w, stop).
       if stop then Inr (pdb1, w, rest)
       else and_then (load_lines fl pdb1 state1 rest) (\<lambda>(pdb2, w1, unread).
              Inr (pdb2, w @ w1, unread)))"

text \<open>\<^verbatim>\<open>_load\<close>, and the constructor \<^verbatim>\<open>PdbStructure(input_stream,
  load_all_models)\<close> that calls it. The two counters do not exist as attributes before
  \<^verbatim>\<open>_load\<close> resets them; the record holds 0 until then.\<close>

definition PdbStructure_load ::
  "(string \<Rightarrow> 'f option) \<Rightarrow> string list \<Rightarrow> 'f pdbstructure
     \<Rightarrow> error + ('f pdbstructure \<times> warning list \<times> string list)" where
  "PdbStructure_load fl input_stream pdb =
     and_then (load_lines fl (reset_residue_numbers (reset_atom_numbers pdb)) NoState
                 input_stream) (\<lambda>(pdb1, w, unread).
     and_then (PdbStructure_finalize pdb1) (\<lambda>pdb2. Inr (pdb2, w, unread)))"

definition PdbStructure_init ::
  "(string \<Rightarrow> 'f option) \<Rightarrow> string list \<Rightarrow> bool
     \<Rightarrow> error + ('f pdbstructure \<times> warning list \<times> string list)" where
  "PdbStructure_init fl input_stream load_all =
     PdbStructure_load fl input_stream
       \<lparr>atom_num_nondec_mode = None,
        residue_num_nondec_mode = None,
        next_atom_number = 0,
        next_residue_number = 0,
        load_all_models = load_all,
        models = [],
        unit_cell_lengths = None,
        unit_cell_angles = None\<rparr>"

section \<open>The serializer\<close>

text \<open>
  An output line is the data its format string prints. The running serial number
  (\<^verbatim>\<open>Model.AtomSerialNumber\<close>, passed by reference) is threaded through
  the calls: each function returns the lines it printed and the counter after them.

  \<^verbatim>\<open>Atom.write\<close> takes \<^verbatim>\<open>alt_loc\<close>: \<^verbatim>\<open>None\<close>, or a string.
  For \<^verbatim>\<open>"*"\<close>, the default, the source evaluates
  \<^verbatim>\<open>locs = self.locations.keys()\<close> and then \<^verbatim>\<open>locs.sort()\<close>.
  The file is Python 3 (its f-strings need 3.6), where \<^verbatim>\<open>keys()\<close> is a
  view object without a \<^verbatim>\<open>sort\<close> method: the call raises AttributeError
  before any line is printed.
\<close>

datatype 'f out_line =
  AtomLine "'f atom_line"
  | TerLine int string char int char
  | ModelLine int
  | EndmdlLine
  | EndLine

fun write_locs :: "'f atom \<Rightarrow> char list \<Rightarrow> int \<Rightarrow> error + ('f out_line list \<times> int)" where
  "write_locs a [] sn = Inr ([], sn)"
| "write_locs a (loc_id # locs) sn =
     and_then (pdb_string a sn loc_id) (\<lambda>line.
     and_then (write_locs a locs (sn + 1)) (\<lambda>(out, sn1). Inr (AtomLine line # out, sn1)))"

definition Atom_write ::
  "'f atom \<Rightarrow> int \<Rightarrow> string option \<Rightarrow> error + ('f out_line list \<times> int)" where
  "Atom_write a next_serial_number alt_loc =
     and_then
       (case alt_loc of
          None \<Rightarrow> Inr [default_location_id a]
        | Some s \<Rightarrow>
            if s = [] then Inr [default_location_id a]
            else if s = ''*'' then Inl AttributeError
            else Inr s)
       (\<lambda>locs. write_locs a locs next_serial_number)"

fun write_atoms ::
  "'f atom list \<Rightarrow> int \<Rightarrow> string option \<Rightarrow> error + ('f out_line list \<times> int)" where
  "write_atoms [] sn alt_loc = Inr ([], sn)"
| "write_atoms (a # as) sn alt_loc =
     and_then (Atom_write a sn alt_loc) (\<lambda>(out, sn1).
     and_then (write_atoms as sn1 alt_loc) (\<lambda>(out1, sn2). Inr (out @ out1, sn2)))"

definition Residue_write ::
  "'f residue \<Rightarrow> int \<Rightarrow> string option \<Rightarrow> error + ('f out_line list \<times> int)" where
  "Residue_write r next_serial_number alt_loc = write_atoms (atoms r) next_serial_number alt_loc"

fun write_residues :: "'f residue list \<Rightarrow> int \<Rightarrow> error + ('f out_line list \<times> int)" where
  "write_residues [] sn = Inr ([], sn)"
| "write_residues (r # rs) sn =
     and_then (Residue_write r sn (Some ''*'')) (\<lambda>(out, sn1).
     and_then (write_residues rs sn1) (\<lambda>(out1, sn2). Inr (out @ out1, sn2)))"

definition Chain_write :: "'f chain \<Rightarrow> int \<Rightarrow> error + ('f out_line list \<times> int)" where
  "Chain_write c next_serial_number =
     and_then (write_residues (residues c) next_serial_number) (\<lambda>(out, sn).
       if has_ter_record c then
         (if residues c = [] then Inl IndexError
          else Inr (out @ [TerLine sn (r_name_with_spaces (last (residues c))) (c_chain_id c)
                             (number (last (residues c)) mod 10000)
                             (r_insertion_code (last (residues c)))],
                    sn + 1))
       else Inr (out, sn))"

fun write_chains :: "'f chain list \<Rightarrow> int \<Rightarrow> error + ('f out_line list \<times> int)" where
  "write_chains [] sn = Inr ([], sn)"
| "write_chains (c # cs) sn =
     and_then (Chain_write c sn) (\<lambda>(out, sn1).
     and_then (write_chains cs sn1) (\<lambda>(out1, sn2). Inr (out @ out1, sn2)))"

definition Model_write :: "'f model \<Rightarrow> error + 'f out_line list" where
  "Model_write m = and_then (write_chains (chains m) 1) (\<lambda>(out, sn). Inr out)"

fun write_models :: "bool \<Rightarrow> 'f model list \<Rightarrow> error + 'f out_line list" where
  "write_models several [] = Inr []"
| "write_models several (m # ms) =
     (if chains m = [] then write_models several ms
      else
        and_then (Model_write m) (\<lambda>out.
        and_then (write_models several ms) (\<lambda>out1.
          Inr ((if several then [ModelLine (m_number m)] else []) @ out
               @ (if several then [EndmdlLine] else []) @ out1))))"

definition PdbStructure_write :: "'f pdbstructure \<Rightarrow> error + 'f out_line list" where
  "PdbStructure_write pdb =
     and_then (write_models (1 < length (models pdb)) (models pdb)) (\<lambda>out.
       Inr (out @ [EndLine]))"

section \<open>Notions of the specification\<close>

text \<open>
  The value of a string of base-36 digits as the specification words it (the
  remaining characters "form a base-36 number"): most significant digit first. It is
  compared below with what the builtin conversion of the source computes.
\<close>

definition spec_base36_number :: "string \<Rightarrow> int" where
  "spec_base36_number cs =
     foldl (\<lambda>acc c. acc * 36 + (case digit_val c of Some v \<Rightarrow> v | None \<Rightarrow> 0)) 0 cs"

text \<open>The residue currently open on the active chain: the end of the chain of
  references \<^verbatim>\<open>_current_model._current_chain._current_residue\<close>, or
  \<open>None\<close> when one of them is \<^verbatim>\<open>None\<close>.\<close>

definition open_residue_of :: "'f pdbstructure \<Rightarrow> 'f residue option" where
  "open_residue_of pdb =
     (case current_model pdb of
        None \<Rightarrow> None
      | Some m \<Rightarrow> (case current_chain m of None \<Rightarrow> None | Some c \<Rightarrow> current_residue c))"

text \<open>The lines that may stand between a model-start and a model-end marker: every
  kind of line but the three model markers.\<close>

definition in_model_line :: "string \<Rightarrow> bool" where
  "in_model_line l =
     (record_kind l = Coordinate \<or> record_kind l = ChainTerminator
      \<or> record_kind l = UnitCell \<or> record_kind l = Connectivity
      \<or> record_kind l = Unrecognized)"

text \<open>The state of each resolver: the locked decode mode and the next-expected
  counter. Its initial state is \<open>(None, 1)\<close>.\<close>

definition atom_resolver :: "'f pdbstructure \<Rightarrow> num_mode option \<times> int" where
  "atom_resolver pdb = (atom_num_nondec_mode pdb, next_atom_number pdb)"

definition residue_resolver :: "'f pdbstructure \<Rightarrow> num_mode option \<times> int" where
  "residue_resolver pdb = (residue_num_nondec_mode pdb, next_residue_number pdb)"


section \<open>Example input\<close>

text \<open>
  A reader of plain fixed-point fields, used where an example needs a concrete
  \<^verbatim>\<open>float\<close>: blanks, an optional minus sign, digits, a point, digits. It
  returns the digits as an integer with the number of decimals. The builtin accepts
  every field that this reader accepts.
\<close>

definition is_digit :: "char \<Rightarrow> bool" where
  "is_digit c = (48 \<le> (of_char c :: int) \<and> (of_char c :: int) \<le> 57)"

definition fixed_point :: "string \<Rightarrow> (int \<times> nat) option" where
  "fixed_point s =
     (let t = rev (dropWhile (\<lambda>c. c = CHR '' '') (rev (dropWhile (\<lambda>c. c = CHR '' '') s)));
          u = (if take 1 t = ''-'' then drop 1 t else t);
          whole = takeWhile is_digit u;
          frac = drop 1 (dropWhile is_digit u)
      in if whole \<noteq> [] \<and> frac \<noteq> [] \<and> take 1 (dropWhile is_digit u) = ''.''
            \<and> list_all is_digit frac
         then map_option (\<lambda>n. (if take 1 t = ''-'' then - n else n, length frac))
                (py_int 10 (whole @ frac))
         else None)"

text \<open>
  The Atom that \<^verbatim>\<open>Atom.__init__\<close> builds for a coordinate record of chain A
  at the origin, with the given serial number, atom name, alternate-location
  indicator, residue name and residue number.
\<close>

definition example_atom :: "int \<Rightarrow> string \<Rightarrow> char \<Rightarrow> string \<Rightarrow> int \<Rightarrow> (int \<times> nat) atom" where
  "example_atom serial name alt res_name res_num =
     \<lparr>name_with_spaces = name,
      residue_name_with_spaces = res_name,
      record_name = ''ATOM'',
      serial_number = serial,
      chain_id = CHR ''A'',
      residue_number = res_num,
      insertion_code = CHR '' '',
      locations =
        [(alt, \<lparr>loc_alternate_location_indicator = alt,
                position = ((0, 3), (0, 3), (0, 3)),
                occupancy = Some (100, 2),
                temperature_factor = Some (0, 2),
                residue_name = res_name\<rparr>)],
      default_location_id = alt,
      segment_id = [],
      element_symbol = ''C'',
      formal_charge = None,
      model_number = Some 0,
      is_first_atom_in_chain = False,
      is_final_atom_in_chain = False,
      is_first_residue_in_chain = False,
      is_final_residue_in_chain = False\<rparr>"

text \<open>A residue ALA 7 holding the atom N, a chain and a model around it, and a
  PdbStructure in the middle of a load: with no model yet, and with that model.\<close>

definition example_residue :: "(int \<times> nat) residue" where
  "example_residue =
     \<lparr>primary_location_id = CHR '' '',
      r_segment_id = [],
      r_locations = [(CHR '' '', ''ALA'')],
      r_name_with_spaces = ''ALA'',
      number = 7,
      r_insertion_code = CHR '' '',
      atoms = [example_atom 1 '' N  '' CHR '' '' ''ALA'' 7],
      atoms_by_name = [(''N'', 0), ('' N  '', 0)],
      is_first_in_chain = True,
      is_final_in_chain = False\<rparr>"

definition example_chain :: "(int \<times> nat) chain" where
  "example_chain =
     \<lparr>c_chain_id = CHR ''A'', residues = [example_residue], has_ter_record = False\<rparr>"

definition example_pdb :: "(int \<times> nat) model list \<Rightarrow> (int \<times> nat) pdbstructure" where
  "example_pdb ms =
     \<lparr>atom_num_nondec_mode = None,
      residue_num_nondec_mode = None,
      next_atom_number = 2,
      next_residue_number = 8,
      load_all_models = True,
      models = ms,
      unit_cell_lengths = None,
      unit_cell_angles = None\<rparr>"

definition example_model :: "(int \<times> nat) model" where
  "example_model = \<lparr>m_number = 0, chains = [example_chain], connects = []\<rparr>"

text \<open>Coordinate records in the fixed columns of the format, as a file gives them
  (with the line end), and the marker lines.\<close>

definition atom_99999_N :: string where
  "atom_99999_N =
     ''ATOM  99999  N   ALA A   1      11.104   6.134  -6.504  1.00  0.00           N  \<newline>''"

definition atom_186a0_CA :: string where
  "atom_186a0_CA =
     ''ATOM  186a0  CA  ALA A   1      11.639   6.071  -5.147  1.00  0.00           C  \<newline>''"

definition atom_10_N :: string where
  "atom_10_N =
     ''ATOM     10  N   ALA A   1      11.104   6.134  -6.504  1.00  0.00           N  \<newline>''"

definition atom_1_N :: string where
  "atom_1_N =
     ''ATOM      1  N   ALA A   7      11.104   6.134  -6.504  1.00  0.00           N  \<newline>''"

definition atom_2_CA :: string where
  "atom_2_CA =
     ''ATOM      2  CA  ALA A   7      11.639   6.071  -5.147  1.00  0.00           C  \<newline>''"

definition atom_2_N :: string where
  "atom_2_N =
     ''ATOM      2  N   ALA A   7      11.104   6.134  -6.504  1.00  0.00           N  \<newline>''"

definition atom_1_N_A_SER :: string where
  "atom_1_N_A_SER =
     ''ATOM      1  N  ASER A   7      11.104   6.134  -6.504  1.00  0.00           N  \<newline>''"

definition atom_2_CA_A_THR :: string where
  "atom_2_CA_A_THR =
     ''ATOM      2  CA ATHR A   7      11.639   6.071  -5.147  1.00  0.00           C  \<newline>''"

definition atom_res_9999 :: string where
  "atom_res_9999 =
     ''ATOM      1  N   ALA A9999      11.104   6.134  -6.504  1.00  0.00           N  \<newline>''"

definition atom_res_2710 :: string where
  "atom_res_2710 =
     ''ATOM      2  N   GLY A2710      11.639   6.071  -5.147  1.00  0.00           N  \<newline>''"

definition atom_res_A000 :: string where
  "atom_res_A000 =
     ''ATOM      3  N   SER AA000      12.104   7.134  -4.504  1.00  0.00           N  \<newline>''"

definition model_1 :: string where
  "model_1 = ''MODEL        1\<newline>''"

definition model_2 :: string where
  "model_2 = ''MODEL        2\<newline>''"

definition endmdl :: string where
  "endmdl = ''ENDMDL\<newline>''"

definition end_line :: string where
  "end_line = ''END\<newline>''"

text \<open>A terminator line as the format defines it and as \<^verbatim>\<open>Chain.write\<close>
  prints it: the keyword, then a serial number, the residue name, the chain and the
  residue number.\<close>

definition ter_with_fields :: string where
  "ter_with_fields = ''TER       3      ALA A   7\<newline>''"

definition remark_line :: string where
  "remark_line = ''REMARK   1 CREATED BY HAND\<newline>''"

definition ter_line :: string where
  "ter_line = ''TER\<newline>''"

definition terminus_line :: string where
  "terminus_line = ''TERMINUS\<newline>''"

definition two_model_file :: "string list" where
  "two_model_file =
     [model_1, atom_1_N, atom_2_CA, endmdl, model_2, atom_1_N, atom_2_CA, endmdl, end_line]"

definition implicit_model_file :: "string list" where
  "implicit_model_file = [atom_99999_N, atom_186a0_CA, endmdl, atom_10_N]"

definition explicit_model_file :: "string list" where
  "explicit_model_file = [atom_99999_N, atom_186a0_CA, endmdl, model_2, atom_10_N]"

definition single_model_file :: "string list" where
  "single_model_file = [atom_1_N, atom_2_CA]"

text \<open>A file in the hexadecimal extension: residue 9999, the sentinel of 10000,
  and the residue field \<^verbatim>\<open>A000\<close>.\<close>

definition hex_residue_file :: "string list" where
  "hex_residue_file = [atom_res_9999, atom_res_2710, atom_res_A000]"

text \<open>What the examples look at in a loaded PdbStructure: per model, chain and
  residue, the serial numbers of the Atoms held; and the residues' name tables.\<close>

definition serial_numbers :: "'f pdbstructure \<Rightarrow> int list list list list" where
  "serial_numbers pdb =
     map (\<lambda>m. map (\<lambda>c. map (\<lambda>r. map serial_number (atoms r)) (residues c)) (chains m))
       (models pdb)"

definition name_tables :: "'f pdbstructure \<Rightarrow> (char \<times> string) list list list list" where
  "name_tables pdb =
     map (\<lambda>m. map (\<lambda>c. map r_locations (residues c)) (chains m)) (models pdb)"

definition ter_flags :: "'f pdbstructure \<Rightarrow> bool list list" where
  "ter_flags pdb = map (\<lambda>m. map has_ter_record (chains m)) (models pdb)"

definition residue_numbers :: "'f pdbstructure \<Rightarrow> int list list list" where
  "residue_numbers pdb = map (\<lambda>m. map (\<lambda>c. map number (residues c)) (chains m)) (models pdb)"

section \<open>The resolver: the sequential guess and the hybrid decoder\<close>

lemma and_then_simps [simp]:
  "and_then (Inl e) f = Inl e"
  "and_then (Inr x) f = f x"
  by (simp_all add: and_then_def)

text \<open>
  \<^bold>\<open>C2.\<close> Writing an Atom with the default selector \<^verbatim>\<open>"*"\<close>: the claim
  expects one line per alternate-location id in ascending order, with the counter
  advanced after each. The source raises AttributeError at
  \<^verbatim>\<open>locs.sort()\<close>, for every Atom and every counter, before a line is
  written.
\<close>

theorem C2_default_selector_raises:
  "Atom_write a next_serial_number (Some ''*'') = Inl AttributeError"
  by (simp add: Atom_write_def)

text \<open>
  \<^bold>\<open>C4.\<close> The sequential-guess decoder for residue numbers, with a PdbStructure and
  the current atom given: with no residue open it returns the next-expected residue
  counter; with a residue open whose name differs from the atom's residue name, the
  counter; with the atom's name already in the open residue's atom table, the
  counter; otherwise the number of the open residue.
\<close>

theorem C4_sequential_guess_residue:
  "(open_residue_of pdb = None \<longrightarrow>
      overflow_residue_check num_str pdb curr_atom = next_residue_number pdb)
   \<and> (\<forall>r. open_residue_of pdb = Some r \<longrightarrow>
        (r_name_with_spaces r \<noteq> residue_name_with_spaces curr_atom \<longrightarrow>
           overflow_residue_check num_str pdb curr_atom = next_residue_number pdb)
        \<and> (r_name_with_spaces r = residue_name_with_spaces curr_atom
             \<and> name_with_spaces curr_atom \<in> fst ` set (atoms_by_name r) \<longrightarrow>
           overflow_residue_check num_str pdb curr_atom = next_residue_number pdb)
        \<and> (r_name_with_spaces r = residue_name_with_spaces curr_atom
             \<and> name_with_spaces curr_atom \<notin> fst ` set (atoms_by_name r) \<longrightarrow>
           overflow_residue_check num_str pdb curr_atom = number r))"
  by (auto simp: overflow_residue_check_def open_residue_of_def map_of_eq_None_iff
      split: option.splits)

theorem C4_sequential_guess_residue_witness:
  "open_residue_of (example_pdb []) = None
   \<and> overflow_residue_check ''****'' (example_pdb [])
        \<lparr>name_with_spaces = '' CA '', residue_name_with_spaces = ''ALA''\<rparr> = 8
   \<and> open_residue_of (example_pdb [example_model]) = Some example_residue
   \<and> overflow_residue_check ''****'' (example_pdb [example_model])
        \<lparr>name_with_spaces = '' CA '', residue_name_with_spaces = ''GLY''\<rparr> = 8
   \<and> overflow_residue_check ''****'' (example_pdb [example_model])
        \<lparr>name_with_spaces = '' N  '', residue_name_with_spaces = ''ALA''\<rparr> = 8
   \<and> overflow_residue_check ''****'' (example_pdb [example_model])
        \<lparr>name_with_spaces = '' CA '', residue_name_with_spaces = ''ALA''\<rparr> = 7"
proof -
  have none: "open_residue_of (example_pdb []) = None"
    by (simp add: open_residue_of_def current_model_def example_pdb_def)
  have some: "open_residue_of (example_pdb [example_model]) = Some example_residue"
    by (simp add: open_residue_of_def current_model_def current_chain_def
        current_residue_def example_pdb_def example_model_def example_chain_def)
  have names: "r_name_with_spaces example_residue = ''ALA''"
    "fst ` set (atoms_by_name example_residue) = {''N'', '' N  ''}"
    "number example_residue = 7"
    by (auto simp: example_residue_def)
  have nexts: "next_residue_number (example_pdb ms) = 8" for ms
    by (simp add: example_pdb_def)
  show ?thesis
    using none some names nexts
      C4_sequential_guess_residue [where pdb = "example_pdb []" and num_str = "''****''"
        and curr_atom = "\<lparr>name_with_spaces = '' CA '', residue_name_with_spaces = ''ALA''\<rparr>"]
      C4_sequential_guess_residue [where pdb = "example_pdb [example_model]" and num_str = "''****''"
        and curr_atom = "\<lparr>name_with_spaces = '' CA '', residue_name_with_spaces = ''GLY''\<rparr>"]
      C4_sequential_guess_residue [where pdb = "example_pdb [example_model]" and num_str = "''****''"
        and curr_atom = "\<lparr>name_with_spaces = '' N  '', residue_name_with_spaces = ''ALA''\<rparr>"]
      C4_sequential_guess_residue [where pdb = "example_pdb [example_model]" and num_str = "''****''"
        and curr_atom = "\<lparr>name_with_spaces = '' CA '', residue_name_with_spaces = ''ALA''\<rparr>"]
    by simp
qed

text \<open>The builtin conversion on a string of base-36 digits.\<close>

lemma digit_val_range: "digit_val c = Some v \<Longrightarrow> 0 \<le> v \<and> v < 36"
  by (auto simp: digit_val_def Let_def split: if_splits)

lemma digit_val_plain:
  assumes "digit_val c = Some v"
  shows "\<not> int_space c" and "c \<noteq> CHR ''_''" and "c \<noteq> CHR ''-''" and "c \<noteq> CHR ''+''"
  using assms by (auto simp: digit_val_def int_space_def Let_def split: if_splits)

lemma py_digits_base36:
  "list_all (\<lambda>c. digit_val c \<noteq> None) cs \<Longrightarrow>
   py_digits 36 acc cs =
     Some (foldl (\<lambda>acc c. acc * 36 + (case digit_val c of Some v \<Rightarrow> v | None \<Rightarrow> 0)) acc cs)"
proof (induction cs arbitrary: acc)
  case Nil
  then show ?case by simp
next
  case (Cons c cs)
  from Cons.prems obtain v where v: "digit_val c = Some v" by auto
  from Cons.prems have rest: "list_all (\<lambda>c. digit_val c \<noteq> None) cs" by simp
  have "c \<noteq> CHR ''_''" using v by (rule digit_val_plain)
  moreover have "v < 36" using digit_val_range [OF v] by simp
  ultimately show ?case using v Cons.IH [OF rest] by simp
qed

lemma dropWhile_unchanged: "xs \<noteq> [] \<Longrightarrow> \<not> P (hd xs) \<Longrightarrow> dropWhile P xs = xs"
  by (cases xs) auto

lemma py_int_base36:
  assumes "cs \<noteq> []" and "list_all (\<lambda>c. digit_val c \<noteq> None) cs"
  shows "py_int 36 cs = Some (spec_base36_number cs)"
proof -
  from assms obtain c cs' where cs: "cs = c # cs'" by (cases cs) auto
  from assms(2) cs obtain v where v: "digit_val c = Some v" by auto
  have "digit_val (last cs) \<noteq> None"
    using assms by (simp add: list_all_iff)
  then obtain u where u: "digit_val (last cs) = Some u" by auto
  have front: "dropWhile int_space cs = cs"
    using cs digit_val_plain(1) [OF v] by simp
  have "hd (rev cs) = last cs" using assms(1) by (simp add: hd_rev)
  then have rear: "dropWhile int_space (rev cs) = rev cs"
    using assms(1) digit_val_plain(1) [OF u] by (intro dropWhile_unchanged) auto
  have t: "rev (dropWhile int_space (rev (dropWhile int_space cs))) = c # cs'"
    using front rear cs by simp
  have "py_unsigned 36 (c # cs') = py_digits 36 0 (c # cs')"
    using digit_val_plain(2) [OF v] by (simp add: py_unsigned_def)
  then show ?thesis
    using t digit_val_plain(3,4) [OF v] py_digits_base36 [OF assms(2), of 0] cs
    by (simp add: py_int_def spec_base36_number_def)
qed

lemma chimera_formula:
  assumes "digit_val c = Some high" and "cs \<noteq> []"
    and "list_all (\<lambda>c. digit_val c \<noteq> None) cs"
  shows "chimera k (c # cs) = Inr (high * 10 ^ k + spec_base36_number cs)"
proof -
  have "py_int 36 [c] = Some (spec_base36_number [c])"
    using assms(1) by (intro py_int_base36) auto
  then have "py_int 36 [c] = Some high"
    using assms(1) by (simp add: spec_base36_number_def)
  then show ?thesis
    using py_int_base36 [OF assms(2,3)]
    by (simp add: chimera_def int_of_str_def)
qed

lemma chimera_A000: "chimera 3 ''A000'' = Inr 10000"
  by code_simp

lemma A000_first_overflow:
  assumes "9999 < next_residue_number pdb" and "residue_num_nondec_mode pdb = None"
  shows "read_residue_number ''A000'' pdb z
         = Inr (10000, pdb\<lparr>residue_num_nondec_mode := Some Chimera\<rparr>, [])"
  using assms
  by (simp add: read_residue_number_def read_residue_number_try_def
      read_residue_number_except_def check_overflow_eligibility_def
      residue_num_initial_nondecimal_functions_def residue_num_function_def
      chimera_A000)

lemma A000_locked:
  assumes "residue_num_nondec_mode pdb = Some Chimera"
  shows "read_residue_number ''A000'' pdb z = Inr (10000, pdb, [])"
  using assms
  by (simp add: read_residue_number_def read_residue_number_try_def
      residue_num_function_def chimera_A000)

lemma chimera_high_low:
  assumes "int_of_str 36 [c] = Inr high" and "int_of_str 36 cs = Inr low"
  shows "chimera k (c # cs) = Inr (high * 10 ^ k + low)"
  using assms by (simp add: chimera_def)

lemma int_of_str_base36:
  assumes "digit_val c = Some high" and "cs \<noteq> []"
    and "list_all (\<lambda>c. digit_val c \<noteq> None) cs"
  shows "int_of_str 36 [c] = Inr high" and "int_of_str 36 cs = Inr (spec_base36_number cs)"
proof -
  have "py_int 36 [c] = Some (spec_base36_number [c])"
    using assms(1) by (intro py_int_base36) auto
  then show "int_of_str 36 [c] = Inr high"
    using assms(1) by (simp add: spec_base36_number_def int_of_str_def)
  show "int_of_str 36 cs = Inr (spec_base36_number cs)"
    using py_int_base36 [OF assms(2,3)] by (simp add: int_of_str_def)
qed

text \<open>
  \<^bold>\<open>C7 (as amended).\<close> The hybrid alphanumeric decoder is the decoder of mode
  \<open>Chimera\<close>, with exponent 4 for atom numbers and 3 for residue numbers. It returns
  \<open>high * 10 ^ k + low\<close>, where \<open>high\<close> is what the builtin conversion reads from
  the first character in base 36 and \<open>low\<close> what it reads from the remaining
  characters. On a token whose first character is a base-36 digit and whose remaining
  characters are base-36 digits, \<open>high\<close> is the value of that digit and \<open>low\<close> the
  remaining characters as a base-36 number. The residue token \<^verbatim>\<open>A000\<close>,
  resolved with the residue counter past 9999 and no other decoder locked, decodes to
  10000: with no mode locked yet it is the first overflow of its scope, the resolver
  locks the hybrid decoder and returns 10000 without a diagnostic; with the hybrid
  decoder already locked it returns 10000 as well.
\<close>

theorem C7_hybrid_decoder:
  "atom_num_function Chimera s y = chimera 4 s
   \<and> residue_num_function Chimera s y z = chimera 3 s
   \<and> (int_of_str 36 [c] = Inr high \<and> int_of_str 36 cs = Inr low \<longrightarrow>
        chimera k (c # cs) = Inr (high * 10 ^ k + low))
   \<and> (digit_val c = Some high \<and> cs \<noteq> [] \<and> list_all (\<lambda>d. digit_val d \<noteq> None) cs \<longrightarrow>
        int_of_str 36 [c] = Inr high \<and> int_of_str 36 cs = Inr (spec_base36_number cs)
        \<and> chimera k (c # cs) = Inr (high * 10 ^ k + spec_base36_number cs))
   \<and> (9999 < next_residue_number pdb \<and> residue_num_nondec_mode pdb = None \<longrightarrow>
        read_residue_number ''A000'' pdb z
        = Inr (10000, pdb\<lparr>residue_num_nondec_mode := Some Chimera\<rparr>, []))
   \<and> (9999 < next_residue_number pdb \<and> residue_num_nondec_mode pdb = Some Chimera \<longrightarrow>
        read_residue_number ''A000'' pdb z = Inr (10000, pdb, []))"
  using chimera_formula [of c high cs k] chimera_high_low [of c high cs low k]
    int_of_str_base36 [of c high cs] A000_first_overflow [of pdb z] A000_locked [of pdb z]
  by (simp add: atom_num_function_def residue_num_function_def)

theorem C7_hybrid_decoder_witness:
  "digit_val CHR ''B'' = Some 11
   \<and> int_of_str 36 ''B'' = Inr 11 \<and> int_of_str 36 ''1Z3'' = Inr 2559
   \<and> chimera 4 ''B1Z3'' = Inr (11 * 10 ^ 4 + spec_base36_number ''1Z3'')
   \<and> spec_base36_number ''1Z3'' = 2559
   \<and> 9999 < next_residue_number ((example_pdb []) \<lparr>next_residue_number := 10000\<rparr>)
   \<and> read_residue_number ''A000'' ((example_pdb []) \<lparr>next_residue_number := 10000\<rparr>)
        \<lparr>name_with_spaces = '' N  '', residue_name_with_spaces = ''ALA''\<rparr>
      = Inr (10000,
             (example_pdb []) \<lparr>next_residue_number := 10000,
                               residue_num_nondec_mode := Some Chimera\<rparr>, [])"
proof -
  have d: "digit_val CHR ''B'' = Some 11"
    by (simp add: digit_val_def)
  have ds: "list_all (\<lambda>d. digit_val d \<noteq> None) ''1Z3''"
    by (simp add: digit_val_def)
  have v: "spec_base36_number ''1Z3'' = 2559"
    by (simp add: spec_base36_number_def digit_val_def)
  have st: "9999 < next_residue_number ((example_pdb []) \<lparr>next_residue_number := 10000\<rparr>)"
    "residue_num_nondec_mode ((example_pdb []) \<lparr>next_residue_number := 10000\<rparr>) = None"
    by (simp_all add: example_pdb_def)
  show ?thesis
    using d ds v st
      C7_hybrid_decoder [where c = "CHR ''B''" and high = 11 and cs = "''1Z3''" and k = 4
        and low = 2559
        and s = "''A000''" and y = "example_pdb []"
        and pdb = "(example_pdb []) \<lparr>next_residue_number := 10000\<rparr>"
        and z = "\<lparr>name_with_spaces = '' N  '', residue_name_with_spaces = ''ALA''\<rparr>"]
    by simp
qed

text \<open>
  \<^bold>\<open>C7 (as stated) fails.\<close> The counter past 9999 is not enough. In a file of
  the hexadecimal extension the residue field \<^verbatim>\<open>2710\<close> after residue 9999
  locks the hexadecimal decoder; the field \<^verbatim>\<open>A000\<close> of the next record is
  resolved with the counter at 10001 and decodes to 40960, with the hexadecimal mode
  still locked at the end and no diagnostic.
\<close>

theorem C7_A000_hex_locked_counterexample:
  "map_sum id (\<lambda>r. (residue_numbers (fst r), residue_num_nondec_mode (fst r), fst (snd r)))
     (PdbStructure_init fixed_point hex_residue_file True)
   = Inr ([[[9999, 10000, 40960]]], Some Hex, [])"
  by code_simp

section \<open>The loader: what a turn of the loop leaves unchanged\<close>

lemma read_atom_number_frame:
  "read_atom_number s pdb = Inr (n, pdb1, w) \<Longrightarrow>
   models pdb1 = models pdb \<and> load_all_models pdb1 = load_all_models pdb"
  by (auto simp: read_atom_number_def read_atom_number_except_def and_then_def
      split: sum.splits if_splits option.splits)

lemma read_residue_number_frame:
  "read_residue_number s pdb z = Inr (n, pdb1, w) \<Longrightarrow>
   models pdb1 = models pdb \<and> load_all_models pdb1 = load_all_models pdb"
  by (auto simp: read_residue_number_def read_residue_number_except_def and_then_def
      split: sum.splits if_splits option.splits)

lemma Atom_init_frame:
  assumes "Atom_init fl l pdb = Inr (a, pdb1, w)"
  shows "models pdb1 = models pdb \<and> load_all_models pdb1 = load_all_models pdb"
proof -
  from assms obtain serial p1 w1 res_number p2 w2 and z :: atom_names where
    r1: "read_atom_number (slice 6 11 l) pdb = Inr (serial, p1, w1)" and
    r2: "read_residue_number (slice 22 26 l) p1 z = Inr (res_number, p2, w2)" and
    p: "pdb1 = p2\<lparr>next_atom_number := serial + 1, next_residue_number := res_number + 1\<rparr>"
    by (auto simp: Atom_init_def and_then_def split: sum.splits if_splits prod.splits)
  show ?thesis
    using read_atom_number_frame [OF r1] read_residue_number_frame [OF r2] p by simp
qed

lemma read_connect_frame:
  "read_connect l ps pdb = Inr (ns, pdb1, w) \<Longrightarrow>
   models pdb1 = models pdb \<and> load_all_models pdb1 = load_all_models pdb"
proof (induction ps arbitrary: pdb ns w)
  case Nil
  then show ?case by simp
next
  case (Cons p ps)
  from Cons.prems obtain n p1 w1 ns1 w2 where
    a: "read_atom_number (slice p (p + 5) l) pdb = Inr (n, p1, w1)" and
    b: "read_connect l ps p1 = Inr (ns1, pdb1, w2)"
    by (auto simp: and_then_def split: sum.splits prod.splits)
  show ?case using read_atom_number_frame [OF a] Cons.IH [OF b] by simp
qed

lemma PdbStructure_add_atom_frame:
  assumes "PdbStructure_add_atom a pdb = Inr (pdb1, w)" and "models pdb \<noteq> []"
  shows "length (models pdb1) = length (models pdb)
         \<and> load_all_models pdb1 = load_all_models pdb"
  using assms
  by (auto simp: PdbStructure_add_atom_def current_model_def set_current_model_def
      and_then_def Let_def split: sum.splits if_splits prod.splits)

lemma load_line_in_model:
  assumes "load_line fl l pdb NoState = Inr (pdb1, state1, w, stop)"
    and "models pdb \<noteq> []"
    and "record_kind l \<noteq> ModelStart" "record_kind l \<noteq> ModelEnd"
    and "record_kind l \<noteq> EndStructure"
  shows "length (models pdb1) = length (models pdb)
         \<and> load_all_models pdb1 = load_all_models pdb \<and> state1 = NoState \<and> \<not> stop"
proof (cases "record_kind l")
  case Coordinate
  with assms(1) obtain a p2 w2 w3 where
    i: "Atom_init fl l pdb = Inr (a, p2, w2)" and
    ad: "PdbStructure_add_atom a p2 = Inr (pdb1, w3)" and
    r: "state1 = NoState" "\<not> stop"
    by (auto simp: load_line_def and_then_def split: sum.splits prod.splits)
  from Atom_init_frame [OF i] assms(2) have "models p2 \<noteq> []" by simp
  from PdbStructure_add_atom_frame [OF ad this] Atom_init_frame [OF i] r
  show ?thesis by simp
next
  case ChainTerminator
  with assms(1,2) show ?thesis
    by (auto simp: load_line_def and_then_def current_model_def set_current_model_def
        reset_residue_numbers_def split: sum.splits option.splits if_splits)
next
  case UnitCell
  with assms(1) show ?thesis
    by (auto simp: load_line_def and_then_def split: sum.splits)
next
  case Connectivity
  with assms(1) obtain ns p1 where
    c: "read_connect l (connect_positions l) pdb = Inr (ns, p1, w)" and
    r: "length (models pdb1) = length (models p1)" "load_all_models pdb1 = load_all_models p1"
       "state1 = NoState" "\<not> stop"
    by (auto simp: load_line_def and_then_def current_model_def set_current_model_def
        split: sum.splits prod.splits option.splits if_splits)
  show ?thesis using read_connect_frame [OF c] r by simp
next
  case Unrecognized
  with assms(1) show ?thesis by (simp add: load_line_def)
qed (use assms in simp_all)

lemma load_lines_body:
  assumes "list_all in_model_line body" and "models pdb \<noteq> []"
    and "load_lines fl pdb NoState (body @ rest) = Inr (pdb2, w, unread)"
  shows "\<exists>pdb1 w1 w2. length (models pdb1) = length (models pdb)
           \<and> load_all_models pdb1 = load_all_models pdb
           \<and> load_lines fl pdb1 NoState rest = Inr (pdb2, w2, unread)"
  using assms
proof (induction body arbitrary: pdb w)
  case Nil
  then show ?case by auto
next
  case (Cons l body)
  from Cons.prems(3) obtain p1 s1 w1 stop where
    st: "load_line fl l pdb NoState = Inr (p1, s1, w1, stop)"
    by (auto simp: and_then_def split: sum.splits)
  from Cons.prems(1) have k: "record_kind l \<noteq> ModelStart" "record_kind l \<noteq> ModelEnd"
    "record_kind l \<noteq> EndStructure"
    by (auto simp: in_model_line_def)
  from load_line_in_model [OF st Cons.prems(2) k]
  have f: "length (models p1) = length (models pdb)" "load_all_models p1 = load_all_models pdb"
    "s1 = NoState" "\<not> stop" by simp_all
  from Cons.prems(3) st f obtain w2 where
    nx: "load_lines fl p1 NoState (body @ rest) = Inr (pdb2, w2, unread)"
    by (auto simp: and_then_def split: sum.splits)
  from f(1) Cons.prems(2) have ne: "models p1 \<noteq> []" by auto
  from Cons.prems(1) have "list_all in_model_line body" by simp
  from Cons.IH [OF this ne nx] f show ?case by auto
qed
lemma map_err_length: "map_err f xs = Inr ys \<Longrightarrow> length ys = length xs"
  by (induction xs arbitrary: ys) (auto simp: and_then_def split: sum.splits)

lemma PdbStructure_finalize_length:
  "PdbStructure_finalize pdb = Inr pdb1 \<Longrightarrow> length (models pdb1) = length (models pdb)"
  by (auto simp: PdbStructure_finalize_def and_then_def map_err_length split: sum.splits)

lemma end_of_model_frame:
  assumes "end_of_model pdb state = Inr (pdb1, state1, w, stop)"
  shows "length (models pdb1) = length (models pdb)
         \<and> load_all_models pdb1 = load_all_models pdb
         \<and> stop = (\<not> load_all_models pdb)
         \<and> (load_all_models pdb \<longrightarrow> state1 = NEW_MODEL)"
  using assms
  by (auto simp: end_of_model_def current_model_def set_current_model_def and_then_def
      split: sum.splits if_splits)

lemma load_line_ModelStart:
  assumes "record_kind l = ModelStart"
  shows "\<exists>pdb1. load_line fl l pdb state = Inr (pdb1, NoState, [], False)
           \<and> length (models pdb1) = Suc (length (models pdb))
           \<and> load_all_models pdb1 = load_all_models pdb"
  using assms
  by (simp add: load_line_def reset_residue_numbers_def reset_atom_numbers_def
      PdbStructure_add_model_def)

lemma load_line_end:
  assumes "record_kind l = ModelEnd \<or> record_kind l = EndStructure"
  shows "load_line fl l pdb state = end_of_model pdb state"
  using assms by (auto simp: load_line_def)

lemma two_models_all:
  assumes k: "record_kind m1 = ModelStart" "record_kind m2 = ModelStart"
      "record_kind e1 = ModelEnd" "record_kind e2 = ModelEnd" "record_kind e3 = EndStructure"
    and b: "list_all in_model_line body1" "list_all in_model_line body2"
    and la: "load_all_models pdb0" and ne: "models pdb0 = []"
    and run: "load_lines fl pdb0 NoState (m1 # body1 @ e1 # m2 # body2 @ [e2, e3])
              = Inr (pdb, w, unread)"
  shows "length (models pdb) = 2 \<and> unread = []"
proof -
  from load_line_ModelStart [OF k(1), of fl pdb0 NoState] obtain p1 where
    s1: "load_line fl m1 pdb0 NoState = Inr (p1, NoState, [], False)"
    and f1: "length (models p1) = Suc (length (models pdb0))" "load_all_models p1"
    using la by auto
  from run s1 have r1:
    "load_lines fl p1 NoState (body1 @ e1 # m2 # body2 @ [e2, e3]) = Inr (pdb, w, unread)"
    by (auto simp: and_then_def split: sum.splits)
  from f1 have "models p1 \<noteq> []" by auto
  from load_lines_body [OF b(1) this r1] obtain p2 w2 where
    f2: "length (models p2) = length (models p1)" "load_all_models p2"
    and r2: "load_lines fl p2 NoState (e1 # m2 # body2 @ [e2, e3]) = Inr (pdb, w2, unread)"
    using f1 by auto
  from r2 obtain p3 st3 w3 stop3 where
    s3: "load_line fl e1 p2 NoState = Inr (p3, st3, w3, stop3)"
    by (auto simp: and_then_def split: sum.splits)
  with k(3) have "end_of_model p2 NoState = Inr (p3, st3, w3, stop3)"
    by (simp add: load_line_end)
  from end_of_model_frame [OF this] f2
  have f3: "length (models p3) = length (models p1)" "load_all_models p3" "\<not> stop3"
    by simp_all
  from r2 s3 f3 obtain w4 where
    r3: "load_lines fl p3 st3 (m2 # body2 @ [e2, e3]) = Inr (pdb, w4, unread)"
    by (auto simp: and_then_def split: sum.splits)
  from load_line_ModelStart [OF k(2), of fl p3 st3] obtain p4 where
    s4: "load_line fl m2 p3 st3 = Inr (p4, NoState, [], False)"
    and f4: "length (models p4) = Suc (length (models p3))" "load_all_models p4"
    using f3 by auto
  from r3 s4 have r4: "load_lines fl p4 NoState (body2 @ [e2, e3]) = Inr (pdb, w4, unread)"
    by (auto simp: and_then_def split: sum.splits)
  from f4 have "models p4 \<noteq> []" by auto
  from load_lines_body [OF b(2) this r4] obtain p5 w5 where
    f5: "length (models p5) = length (models p4)" "load_all_models p5"
    and r5: "load_lines fl p5 NoState [e2, e3] = Inr (pdb, w5, unread)"
    using f4 by auto
  from r5 obtain p6 st6 w6 stop6 where
    s6: "load_line fl e2 p5 NoState = Inr (p6, st6, w6, stop6)"
    by (auto simp: and_then_def split: sum.splits)
  with k(4) have "end_of_model p5 NoState = Inr (p6, st6, w6, stop6)"
    by (simp add: load_line_end)
  from end_of_model_frame [OF this] f5
  have f6: "length (models p6) = length (models p4)" "load_all_models p6" "\<not> stop6"
    by simp_all
  from r5 s6 f6 obtain w7 where
    r6: "load_lines fl p6 st6 [e3] = Inr (pdb, w7, unread)"
    by (auto simp: and_then_def split: sum.splits)
  from r6 obtain p7 st7 w8 stop7 where
    s7: "load_line fl e3 p6 st6 = Inr (p7, st7, w8, stop7)"
    by (auto simp: and_then_def split: sum.splits)
  with k(5) have "end_of_model p6 st6 = Inr (p7, st7, w8, stop7)"
    by (simp add: load_line_end)
  from end_of_model_frame [OF this] f6
  have f7: "length (models p7) = length (models p4)" "\<not> stop7"
    by simp_all
  from r6 s7 f7 have "pdb = p7" "unread = []"
    by (auto simp: and_then_def split: sum.splits)
  with f7 f4 f3 f1 ne show ?thesis by simp
qed

lemma two_models_first:
  assumes k: "record_kind m1 = ModelStart" "record_kind e1 = ModelEnd"
    and b: "list_all in_model_line body1"
    and la: "\<not> load_all_models pdb0" and ne: "models pdb0 = []"
    and run: "load_lines fl pdb0 NoState (m1 # body1 @ e1 # rest) = Inr (pdb, w, unread)"
  shows "length (models pdb) = 1 \<and> unread = rest"
proof -
  from load_line_ModelStart [OF k(1), of fl pdb0 NoState] obtain p1 where
    s1: "load_line fl m1 pdb0 NoState = Inr (p1, NoState, [], False)"
    and f1: "length (models p1) = Suc (length (models pdb0))" "\<not> load_all_models p1"
    using la by auto
  from run s1 have r1: "load_lines fl p1 NoState (body1 @ e1 # rest) = Inr (pdb, w, unread)"
    by (auto simp: and_then_def split: sum.splits)
  from f1 have "models p1 \<noteq> []" by auto
  from load_lines_body [OF b this r1] obtain p2 w2 where
    f2: "length (models p2) = length (models p1)" "\<not> load_all_models p2"
    and r2: "load_lines fl p2 NoState (e1 # rest) = Inr (pdb, w2, unread)"
    using f1 by auto
  from r2 obtain p3 st3 w3 stop3 where
    s3: "load_line fl e1 p2 NoState = Inr (p3, st3, w3, stop3)"
    by (auto simp: and_then_def split: sum.splits)
  with k(2) have "end_of_model p2 NoState = Inr (p3, st3, w3, stop3)"
    by (simp add: load_line_end)
  from end_of_model_frame [OF this] f2
  have f3: "length (models p3) = length (models p1)" "stop3"
    by simp_all
  from r2 s3 f3 have "pdb = p3" "unread = rest"
    by (auto simp: and_then_def split: sum.splits)
  with f3 f1 ne show ?thesis by simp
qed

text \<open>
  \<^bold>\<open>C8.\<close> An input of the form model-start, lines of the first model, model-end,
  model-start, lines of the second model, model-end, end-of-structure. When the load
  with all models requested returns, the Structure has length 2 and the stream is
  read to its end; when the load with the first model only returns, the Structure has
  length 1 and everything after the first model-end marker is left unread.
\<close>

theorem C8_two_model_input:
  assumes "record_kind m1 = ModelStart" and "record_kind m2 = ModelStart"
    and "record_kind e1 = ModelEnd" and "record_kind e2 = ModelEnd"
    and "record_kind e3 = EndStructure"
    and "list_all in_model_line body1" and "list_all in_model_line body2"
  shows "(PdbStructure_init fl (m1 # body1 @ e1 # m2 # body2 @ [e2, e3]) True = Inr r \<longrightarrow>
           length (models (fst r)) = 2 \<and> snd (snd r) = [])
         \<and> (PdbStructure_init fl (m1 # body1 @ e1 # m2 # body2 @ [e2, e3]) False = Inr r' \<longrightarrow>
           length (models (fst r')) = 1 \<and> snd (snd r') = m2 # body2 @ [e2, e3])"
proof (intro conjI impI)
  assume run: "PdbStructure_init fl (m1 # body1 @ e1 # m2 # body2 @ [e2, e3]) True = Inr r"
  define pdb0 :: "'a pdbstructure" where
    "pdb0 = reset_residue_numbers (reset_atom_numbers
       \<lparr>atom_num_nondec_mode = None, residue_num_nondec_mode = None,
        next_atom_number = 0, next_residue_number = 0, load_all_models = True,
        models = [], unit_cell_lengths = None, unit_cell_angles = None\<rparr>)"
  have p0: "load_all_models pdb0" "models pdb0 = []"
    by (simp_all add: pdb0_def reset_residue_numbers_def reset_atom_numbers_def)
  from run obtain p w unread where
    l: "load_lines fl pdb0 NoState (m1 # body1 @ e1 # m2 # body2 @ [e2, e3])
        = Inr (p, w, unread)"
    and f: "PdbStructure_finalize p = Inr (fst r)" and u: "snd (snd r) = unread"
    unfolding PdbStructure_init_def PdbStructure_load_def pdb0_def
    by (auto simp: and_then_def split: sum.splits)
  from two_models_all [OF assms p0 l] PdbStructure_finalize_length [OF f] u
  show "length (models (fst r)) = 2" and "snd (snd r) = []" by simp_all
next
  assume run: "PdbStructure_init fl (m1 # body1 @ e1 # m2 # body2 @ [e2, e3]) False = Inr r'"
  define pdb0 :: "'a pdbstructure" where
    "pdb0 = reset_residue_numbers (reset_atom_numbers
       \<lparr>atom_num_nondec_mode = None, residue_num_nondec_mode = None,
        next_atom_number = 0, next_residue_number = 0, load_all_models = False,
        models = [], unit_cell_lengths = None, unit_cell_angles = None\<rparr>)"
  have p0: "\<not> load_all_models pdb0" "models pdb0 = []"
    by (simp_all add: pdb0_def reset_residue_numbers_def reset_atom_numbers_def)
  from run obtain p w unread where
    l: "load_lines fl pdb0 NoState (m1 # body1 @ e1 # m2 # body2 @ [e2, e3])
        = Inr (p, w, unread)"
    and f: "PdbStructure_finalize p = Inr (fst r')" and u: "snd (snd r') = unread"
    unfolding PdbStructure_init_def PdbStructure_load_def pdb0_def
    by (auto simp: and_then_def split: sum.splits)
  from two_models_first [OF assms(1,3,6) p0 l] PdbStructure_finalize_length [OF f] u
  show "length (models (fst r')) = 1" and "snd (snd r') = m2 # body2 @ [e2, e3]"
    by simp_all
qed

lemma two_model_file_loads:
  "map_sum id (\<lambda>r. (serial_numbers (fst r), fst (snd r), snd (snd r)))
     (PdbStructure_init fixed_point two_model_file True)
   = Inr ([[[[1, 2]]], [[[1, 2]]]], [], [])"
  "map_sum id (\<lambda>r. (serial_numbers (fst r), fst (snd r), snd (snd r)))
     (PdbStructure_init fixed_point two_model_file False)
   = Inr ([[[[1, 2]]]], [], [model_2, atom_1_N, atom_2_CA, endmdl, end_line])"
  by code_simp+

theorem C8_two_model_input_witness:
  "record_kind model_1 = ModelStart \<and> record_kind model_2 = ModelStart
   \<and> record_kind endmdl = ModelEnd \<and> record_kind end_line = EndStructure
   \<and> list_all in_model_line [atom_1_N, atom_2_CA]
   \<and> PdbStructure_init fixed_point two_model_file True
       = Inr (projr (PdbStructure_init fixed_point two_model_file True))
   \<and> length (models (fst (projr (PdbStructure_init fixed_point two_model_file True)))) = 2
   \<and> snd (snd (projr (PdbStructure_init fixed_point two_model_file True))) = []
   \<and> PdbStructure_init fixed_point two_model_file False
       = Inr (projr (PdbStructure_init fixed_point two_model_file False))
   \<and> length (models (fst (projr (PdbStructure_init fixed_point two_model_file False)))) = 1
   \<and> snd (snd (projr (PdbStructure_init fixed_point two_model_file False)))
       = [model_2, atom_1_N, atom_2_CA, endmdl, end_line]"
proof -
  have k: "record_kind model_1 = ModelStart" "record_kind model_2 = ModelStart"
    "record_kind endmdl = ModelEnd" "record_kind endmdl = ModelEnd"
    "record_kind end_line = EndStructure"
    "list_all in_model_line [atom_1_N, atom_2_CA]"
    "list_all in_model_line [atom_1_N, atom_2_CA]"
    by code_simp+
  have shape: "two_model_file
      = model_1 # [atom_1_N, atom_2_CA] @ endmdl # model_2 # [atom_1_N, atom_2_CA]
        @ [endmdl, end_line]"
    by (simp add: two_model_file_def)
  have a: "PdbStructure_init fixed_point two_model_file True
           = Inr (projr (PdbStructure_init fixed_point two_model_file True))"
    using two_model_file_loads(1)
    by (cases "PdbStructure_init fixed_point two_model_file True") auto
  have b: "PdbStructure_init fixed_point two_model_file False
           = Inr (projr (PdbStructure_init fixed_point two_model_file False))"
    using two_model_file_loads(2)
    by (cases "PdbStructure_init fixed_point two_model_file False") auto
  note inst = C8_two_model_input [OF k, of fixed_point
      "projr (PdbStructure_init fixed_point two_model_file True)"
      "projr (PdbStructure_init fixed_point two_model_file False)", folded shape]
  from inst a have c1:
    "length (models (fst (projr (PdbStructure_init fixed_point two_model_file True)))) = 2"
    "snd (snd (projr (PdbStructure_init fixed_point two_model_file True))) = []"
    by blast+
  from inst b have c2:
    "length (models (fst (projr (PdbStructure_init fixed_point two_model_file False)))) = 1"
    "snd (snd (projr (PdbStructure_init fixed_point two_model_file False)))
     = model_2 # [atom_1_N, atom_2_CA] @ [endmdl, end_line]"
    by blast+
  from c2(2) have c3:
    "snd (snd (projr (PdbStructure_init fixed_point two_model_file False)))
     = [model_2, atom_1_N, atom_2_CA, endmdl, end_line]"
    by (simp only: append.simps)
  from k(1,2,3,5,6) a c1 b c2(1) c3 show ?thesis by (intro conjI)
qed

section \<open>Chain terminators and markers without a model\<close>

lemma startswith_TER: "startswith ''TER'' l \<Longrightarrow> \<exists>rest. l = ''TER'' @ rest"
  unfolding startswith_def
  by (metis append_take_drop_id length_Cons list.size(3))

lemma TER_not_space: "\<not> is_space CHR ''T''" "\<not> is_space CHR ''E''" "\<not> is_space CHR ''R''"
  by (simp_all add: is_space_def)

lemma first_token_TER:
  "first_token (''TER'' @ rest) = ''TER'' @ takeWhile (\<lambda>c. \<not> is_space c) rest"
  by (simp add: first_token_def TER_not_space)

lemma first_token_TER_iff:
  assumes "startswith ''TER'' l"
  shows "(first_token l = ''TER'') = (drop 3 l = [] \<or> is_space (hd (drop 3 l)))"
proof -
  from startswith_TER [OF assms] obtain rest where l: "l = ''TER'' @ rest" by blast
  have "(takeWhile (\<lambda>c. \<not> is_space c) rest = []) = (rest = [] \<or> is_space (hd rest))"
    by (cases rest) auto
  then show ?thesis unfolding l first_token_TER by simp
qed

lemma record_kind_TER:
  assumes "startswith ''TER'' l"
  shows "record_kind l = (if first_token l = ''TER'' then ChainTerminator else Unrecognized)"
proof -
  from startswith_TER [OF assms] obtain rest where l: "l = ''TER'' @ rest" by blast
  show ?thesis unfolding l record_kind_def by (simp add: startswith_def)
qed

lemma Chain_add_ter_record_ok:
  assumes "residues c \<noteq> []"
  shows "\<exists>c1. Chain_add_ter_record c = Inr c1 \<and> has_ter_record c1
           \<and> c_chain_id c1 = c_chain_id c \<and> length (residues c1) = length (residues c)"
  using assms by (simp add: Chain_add_ter_record_def Chain_finalize_def Let_def)

text \<open>
  \<^bold>\<open>C9 (as amended).\<close> A line that starts with the terminator keyword is acted
  upon exactly when the keyword is the first token of the line, that is when white
  space or the end of the line follows it, whatever tokens come after: with a chain
  open, the chain is marked terminated and finalized and the residue resolver is
  reset. When the first token is longer than the keyword the line is ignored.
\<close>

theorem C9_terminator_first_token:
  assumes "startswith ''TER'' l" and "current_model pdb = Some m"
    and "current_chain m = Some c" and "residues c \<noteq> []"
  shows "(first_token l = ''TER'') = (drop 3 l = [] \<or> is_space (hd (drop 3 l)))
         \<and> (first_token l = ''TER'' \<longrightarrow>
              (\<exists>c1. Chain_add_ter_record c = Inr c1 \<and> has_ter_record c1
                 \<and> load_line fl l pdb state
                     = Inr (reset_residue_numbers
                              (set_current_model (set_current_chain c1 m) pdb),
                            state, [], False)))
         \<and> (first_token l \<noteq> ''TER'' \<longrightarrow> load_line fl l pdb state = Inr (pdb, state, [], False))"
proof (intro conjI impI)
  show "(first_token l = ''TER'') = (drop 3 l = [] \<or> is_space (hd (drop 3 l)))"
    using assms(1) by (rule first_token_TER_iff)
next
  assume t: "first_token l = ''TER''"
  from Chain_add_ter_record_ok [OF assms(4)] obtain c1 where
    c1: "Chain_add_ter_record c = Inr c1" "has_ter_record c1" by blast
  have "load_line fl l pdb state
        = Inr (reset_residue_numbers (set_current_model (set_current_chain c1 m) pdb),
               state, [], False)"
    using record_kind_TER [OF assms(1)] t assms(2,3) c1(1) by (simp add: load_line_def)
  with c1 show "\<exists>c1. Chain_add_ter_record c = Inr c1 \<and> has_ter_record c1
      \<and> load_line fl l pdb state
          = Inr (reset_residue_numbers (set_current_model (set_current_chain c1 m) pdb),
                 state, [], False)"
    by blast
next
  assume "first_token l \<noteq> ''TER''"
  then show "load_line fl l pdb state = Inr (pdb, state, [], False)"
    using record_kind_TER [OF assms(1)] by (simp add: load_line_def)
qed

text \<open>
  \<^bold>\<open>C9 (as stated) fails.\<close> The terminator line of the format carries further
  tokens after the keyword. After one coordinate record of residue 7, such a line
  marks the chain terminated and resets the residue counter from 8 to 1.
\<close>

theorem C9_sole_token_counterexample:
  "first_token ter_with_fields = ''TER''
   \<and> map_sum id (\<lambda>r. (ter_flags (fst r), next_residue_number (fst r)))
       (PdbStructure_init fixed_point [atom_1_N, ter_with_fields] True)
     = Inr ([[True]], 1)
   \<and> map_sum id (\<lambda>r. (ter_flags (fst r), next_residue_number (fst r)))
       (PdbStructure_init fixed_point [atom_1_N] True)
     = Inr ([[False]], 8)"
  by code_simp


theorem C9_terminator_first_token_witness:
  "startswith ''TER'' ter_with_fields
   \<and> current_model (example_pdb [example_model]) = Some example_model
   \<and> current_chain example_model = Some example_chain
   \<and> residues example_chain \<noteq> []
   \<and> first_token ter_with_fields = ''TER''
   \<and> (\<exists>c1. Chain_add_ter_record example_chain = Inr c1 \<and> has_ter_record c1
         \<and> load_line fixed_point ter_with_fields (example_pdb [example_model]) NoState
             = Inr (reset_residue_numbers
                      (set_current_model (set_current_chain c1 example_model)
                         (example_pdb [example_model])),
                    NoState, [], False))
   \<and> startswith ''TER'' terminus_line
   \<and> first_token terminus_line \<noteq> ''TER''
   \<and> load_line fixed_point terminus_line (example_pdb [example_model]) NoState
       = Inr (example_pdb [example_model], NoState, [], False)"
proof -
  have s: "startswith ''TER'' ter_with_fields" "startswith ''TER'' terminus_line"
    "first_token ter_with_fields = ''TER''" "first_token terminus_line \<noteq> ''TER''"
    by code_simp+
  have c: "current_model (example_pdb [example_model]) = Some example_model"
    "current_chain example_model = Some example_chain"
    "residues example_chain \<noteq> []"
    by (simp_all add: current_model_def current_chain_def example_pdb_def
        example_model_def example_chain_def)
  note t1 = C9_terminator_first_token [OF s(1) c, of fixed_point NoState]
  note t2 = C9_terminator_first_token [OF s(2) c, of fixed_point NoState]
  from t1 s(3) have a:
    "\<exists>c1. Chain_add_ter_record example_chain = Inr c1 \<and> has_ter_record c1
       \<and> load_line fixed_point ter_with_fields (example_pdb [example_model]) NoState
           = Inr (reset_residue_numbers
                    (set_current_model (set_current_chain c1 example_model)
                       (example_pdb [example_model])),
                  NoState, [], False)"
    by blast
  from t2 s(4) have b:
    "load_line fixed_point terminus_line (example_pdb [example_model]) NoState
     = Inr (example_pdb [example_model], NoState, [], False)"
    by blast
  from s c a b show ?thesis by (intro conjI)
qed

lemma load_lines_raise:
  "load_line fl l pdb state = Inl e \<Longrightarrow> load_lines fl pdb state (l # rest) = Inl e"
  by simp

lemma load_line_no_model:
  assumes "current_model pdb = None"
    and "record_kind l = ModelEnd \<or> record_kind l = EndStructure
         \<or> record_kind l = ChainTerminator"
  shows "load_line fl l pdb state = Inl AttributeError"
  using assms by (auto simp: load_line_def end_of_model_def)

lemma load_line_no_chain:
  assumes "current_model pdb = Some m" and "current_chain m = None"
    and "record_kind l = ChainTerminator"
  shows "load_line fl l pdb state = Inl AttributeError"
  using assms by (simp add: load_line_def)

lemma and_then_Inr: "and_then m Inr = m"
  by (cases m) simp_all

lemma load_lines_unrecognized:
  assumes "list_all (\<lambda>l. record_kind l = Unrecognized) pre"
  shows "load_lines fl pdb state (pre @ rest) = load_lines fl pdb state rest"
  using assms
proof (induction pre)
  case Nil
  then show ?case by simp
next
  case (Cons l pre)
  then have "load_line fl l pdb state = Inr (pdb, state, [], False)"
    by (simp add: load_line_def)
  with Cons show ?case by (simp add: and_then_Inr)
qed

lemma load_line_ModelStart_current:
  assumes "record_kind l = ModelStart"
  shows "\<exists>pdb1 n. load_line fl l pdb state = Inr (pdb1, NoState, [], False)
           \<and> current_model pdb1 = Some (Model_init n)"
  using assms
  by (auto simp: load_line_def reset_residue_numbers_def reset_atom_numbers_def
      PdbStructure_add_model_def current_model_def)

lemma marker_at_start:
  assumes "list_all (\<lambda>l. record_kind l = Unrecognized) pre"
    and "record_kind l = ModelEnd \<or> record_kind l = EndStructure
         \<or> record_kind l = ChainTerminator"
  shows "PdbStructure_init fl (pre @ l # rest) load_all = Inl AttributeError"
proof -
  define pdb0 :: "'a pdbstructure" where
    "pdb0 = reset_residue_numbers (reset_atom_numbers
       \<lparr>atom_num_nondec_mode = None, residue_num_nondec_mode = None,
        next_atom_number = 0, next_residue_number = 0, load_all_models = load_all,
        models = [], unit_cell_lengths = None, unit_cell_angles = None\<rparr>)"
  have "current_model pdb0 = None"
    by (simp add: pdb0_def current_model_def reset_residue_numbers_def
        reset_atom_numbers_def)
  then have "load_line fl l pdb0 NoState = Inl AttributeError"
    using assms(2) by (rule load_line_no_model)
  then have "load_lines fl pdb0 NoState (pre @ l # rest) = Inl AttributeError"
    by (simp add: load_lines_unrecognized [OF assms(1)])
  then show ?thesis
    unfolding PdbStructure_init_def PdbStructure_load_def pdb0_def by simp
qed

lemma terminator_after_model_start:
  assumes "list_all (\<lambda>l. record_kind l = Unrecognized) pre"
    and "record_kind ms = ModelStart"
    and "list_all (\<lambda>l. record_kind l = Unrecognized) mid"
    and "record_kind l = ChainTerminator"
  shows "PdbStructure_init fl (pre @ ms # mid @ l # rest) load_all = Inl AttributeError"
proof -
  define pdb0 :: "'a pdbstructure" where
    "pdb0 = reset_residue_numbers (reset_atom_numbers
       \<lparr>atom_num_nondec_mode = None, residue_num_nondec_mode = None,
        next_atom_number = 0, next_residue_number = 0, load_all_models = load_all,
        models = [], unit_cell_lengths = None, unit_cell_angles = None\<rparr>)"
  from load_line_ModelStart_current [OF assms(2), of fl pdb0 NoState] obtain pdb1 n where
    s: "load_line fl ms pdb0 NoState = Inr (pdb1, NoState, [], False)"
    and c: "current_model pdb1 = Some (Model_init n)" by blast
  have "current_chain (Model_init n :: 'a model) = None"
    by (simp add: current_chain_def Model_init_def)
  with c have "load_line fl l pdb1 NoState = Inl AttributeError"
    using assms(4) by (rule load_line_no_chain)
  then have "load_lines fl pdb1 NoState (mid @ l # rest) = Inl AttributeError"
    by (simp add: load_lines_unrecognized [OF assms(3)])
  with s have "load_lines fl pdb0 NoState (ms # mid @ l # rest) = Inl AttributeError"
    by simp
  then have "load_lines fl pdb0 NoState (pre @ ms # mid @ l # rest) = Inl AttributeError"
    by (simp add: load_lines_unrecognized [OF assms(1)])
  then show ?thesis
    unfolding PdbStructure_init_def PdbStructure_load_def pdb0_def by simp
qed

text \<open>
  \<^bold>\<open>C10 (as amended).\<close> A model-end, end-of-structure or chain-terminator
  marker that arrives while no model is open (no model-start marker and no coordinate
  record has opened one), and a chain-terminator marker that arrives while the
  current model has no chain, make the loader dereference \<^verbatim>\<open>None\<close>:
  the turn raises AttributeError and the load ends with it. The last two parts say
  it for a whole input: the marker after lines that are ignored, and the terminator
  after a model-start marker.
\<close>

theorem C10_marker_without_model:
  "(current_model pdb = None
      \<and> (record_kind l = ModelEnd \<or> record_kind l = EndStructure
          \<or> record_kind l = ChainTerminator) \<longrightarrow>
      load_lines fl pdb state (l # rest) = Inl AttributeError)
   \<and> (current_model pdb = Some m \<and> current_chain m = None
        \<and> record_kind l = ChainTerminator \<longrightarrow>
      load_lines fl pdb state (l # rest) = Inl AttributeError)
   \<and> (list_all (\<lambda>x. record_kind x = Unrecognized) pre
        \<and> (record_kind l = ModelEnd \<or> record_kind l = EndStructure
            \<or> record_kind l = ChainTerminator) \<longrightarrow>
      PdbStructure_init fl (pre @ l # rest) load_all = Inl AttributeError)
   \<and> (list_all (\<lambda>x. record_kind x = Unrecognized) pre \<and> record_kind ms = ModelStart
        \<and> list_all (\<lambda>x. record_kind x = Unrecognized) mid
        \<and> record_kind l = ChainTerminator \<longrightarrow>
      PdbStructure_init fl (pre @ ms # mid @ l # rest) load_all = Inl AttributeError)"
  using load_line_no_model [of pdb l fl state] load_line_no_chain [of pdb m l fl state]
    marker_at_start [of pre l fl rest load_all]
    terminator_after_model_start [of pre ms mid l fl rest load_all]
  by (simp add: load_lines_raise)

text \<open>
  \<^bold>\<open>C10 (as stated) fails.\<close> A model-end marker that comes before any
  coordinate record, but after a model-start marker, finds the model that this marker
  opened: the load returns a Structure with one empty model.
\<close>

theorem C10_marker_after_model_start_counterexample:
  "PdbStructure_init fixed_point [model_1, endmdl] True
   = Inr (\<lparr>atom_num_nondec_mode = None, residue_num_nondec_mode = None,
           next_atom_number = 1, next_residue_number = 1, load_all_models = True,
           models = [\<lparr>m_number = 0, chains = [], connects = []\<rparr>],
           unit_cell_lengths = None, unit_cell_angles = None\<rparr>, [], [])"
  by code_simp

theorem C10_marker_without_model_witness:
  "current_model (example_pdb []) = None \<and> record_kind endmdl = ModelEnd
   \<and> load_lines fixed_point (example_pdb []) NoState [endmdl, atom_1_N] = Inl AttributeError
   \<and> current_model (example_pdb [Model_init 0]) = Some (Model_init 0)
   \<and> current_chain (Model_init 0 :: (int \<times> nat) model) = None
   \<and> record_kind ter_line = ChainTerminator
   \<and> load_lines fixed_point (example_pdb [Model_init 0]) NoState [ter_line, atom_1_N]
       = Inl AttributeError
   \<and> list_all (\<lambda>x. record_kind x = Unrecognized) [remark_line]
   \<and> record_kind end_line = EndStructure
   \<and> PdbStructure_init fixed_point ([remark_line] @ end_line # [atom_1_N]) True
       = Inl AttributeError
   \<and> record_kind model_1 = ModelStart
   \<and> PdbStructure_init fixed_point ([remark_line] @ model_1 # [remark_line] @ ter_line # [atom_1_N]) True
       = Inl AttributeError"
proof -
  have a: "current_model (example_pdb []) = None"
    "current_model (example_pdb [Model_init 0]) = Some (Model_init 0)"
    "current_chain (Model_init 0 :: (int \<times> nat) model) = None"
    by (simp_all add: current_model_def current_chain_def example_pdb_def Model_init_def)
  have k: "record_kind endmdl = ModelEnd" "record_kind ter_line = ChainTerminator"
    "record_kind end_line = EndStructure" "record_kind model_1 = ModelStart"
    "list_all (\<lambda>x. record_kind x = Unrecognized) [remark_line]"
    by code_simp+
  note t1 = C10_marker_without_model [where pdb = "example_pdb []" and l = endmdl
      and fl = fixed_point and state = NoState and rest = "[atom_1_N]"
      and m = "Model_init 0" and pre = "[]" and ms = model_1 and mid = "[]" and load_all = True]
  note t2 = C10_marker_without_model [where pdb = "example_pdb [Model_init 0]" and l = ter_line
      and fl = fixed_point and state = NoState and rest = "[atom_1_N]"
      and m = "Model_init 0" and pre = "[remark_line]" and ms = model_1
      and mid = "[remark_line]" and load_all = True]
  note t3 = C10_marker_without_model [where pdb = "example_pdb []" and l = end_line
      and fl = fixed_point and state = NoState and rest = "[atom_1_N]"
      and m = "Model_init 0" and pre = "[remark_line]" and ms = model_1 and mid = "[]"
      and load_all = True]
  from t1 a(1) k(1) have c1:
    "load_lines fixed_point (example_pdb []) NoState [endmdl, atom_1_N] = Inl AttributeError"
    by blast
  from t2 a(2,3) k(2) have c2:
    "load_lines fixed_point (example_pdb [Model_init 0]) NoState [ter_line, atom_1_N]
     = Inl AttributeError"
    by blast
  from t3 k(3,5) have c3:
    "PdbStructure_init fixed_point ([remark_line] @ end_line # [atom_1_N]) True
     = Inl AttributeError"
    by blast
  from t2 k(2,4,5) have c4:
    "PdbStructure_init fixed_point
       ([remark_line] @ model_1 # [remark_line] @ ter_line # [atom_1_N]) True
     = Inl AttributeError"
    by blast
  from a k c1 c2 c3 c4 show ?thesis by (intro conjI)
qed

section \<open>Residues and atoms of a chain\<close>

lemma map_of_merge_locations:
  "map_of (merge_locations new old) = map_of old ++ map_of (rev new)"
  unfolding merge_locations_def
proof (induction new arbitrary: old)
  case Nil
  then show ?case by simp
next
  case (Cons kv new)
  have "map_of (AList.update (fst kv) (snd kv) old) = (map_of old)(fst kv \<mapsto> snd kv)"
    by (rule update_conv')
  then show ?case
    using Cons.IH [of "AList.update (fst kv) (snd kv) old"]
    by (cases kv) (simp add: map_add_upd_left map_add_def fun_eq_iff split: option.splits)
qed

text \<open>
  \<^bold>\<open>C6 (as amended).\<close> A record whose atom name is already in the table of
  the open Residue (and whose number and insertion code are the Residue's). When its
  alternate-location indicator is not yet a key of the existing Atom's locations,
  the locations of the record are merged into that Atom and no Atom is appended: the
  list of Atoms keeps its length and the name table is unchanged. When the indicator
  is already a key, the record is not dropped: it is appended to the list of Atoms
  as a new Atom. Neither case emits a diagnostic.
\<close>

theorem C6_atom_name_present:
  assumes "alternate_location_indicator a = Inr alt"
    and "residue_number a = number r" and "insertion_code a = r_insertion_code r"
    and "map_of (atoms_by_name r) (name_with_spaces a) = Some i"
    and "i < length (atoms r)"
  shows "(map_of (locations (atoms r ! i)) alt = None \<longrightarrow>
          (\<exists>r1. Residue_add_atom a r = Inr (r1, [])
             \<and> atoms r1 = (atoms r)
                  [i := (atoms r ! i)
                     \<lparr>locations := merge_locations (locations a) (locations (atoms r ! i))\<rparr>]
             \<and> length (atoms r1) = length (atoms r)
             \<and> atoms_by_name r1 = atoms_by_name r
             \<and> map_of (locations (atoms r1 ! i))
                 = map_of (locations (atoms r ! i)) ++ map_of (rev (locations a))))
         \<and> (map_of (locations (atoms r ! i)) alt \<noteq> None \<longrightarrow>
          (\<exists>r1. Residue_add_atom a r = Inr (r1, [])
             \<and> atoms r1 = atoms r @ [a]))"
  using assms
  by (auto simp: Residue_add_atom_def Let_def map_of_merge_locations)
    (auto simp: use_new_atom_def)

text \<open>
  \<^bold>\<open>C6 (as stated) fails.\<close> Two coordinate records with the same atom name,
  the same (blank) indicator and the same residue: the load keeps both as Atoms of
  the one Residue, serial numbers 1 and 2, without a diagnostic.
\<close>

theorem C6_duplicate_dropped_counterexample:
  "map_sum id (\<lambda>r. (serial_numbers (fst r), fst (snd r)))
     (PdbStructure_init fixed_point [atom_1_N, atom_2_N] True)
   = Inr ([[[[1, 2]]]], [])"
  by code_simp

theorem C6_atom_name_present_witness:
  "alternate_location_indicator (example_atom 2 '' N  '' CHR ''B'' ''ALA'' 7) = Inr CHR ''B''
   \<and> alternate_location_indicator (example_atom 2 '' N  '' CHR '' '' ''ALA'' 7) = Inr CHR '' ''
   \<and> map_of (atoms_by_name example_residue) '' N  '' = Some 0
   \<and> map_of (locations (atoms example_residue ! 0)) CHR ''B'' = None
   \<and> map_of (locations (atoms example_residue ! 0)) CHR '' '' \<noteq> None
   \<and> (\<exists>r1. Residue_add_atom (example_atom 2 '' N  '' CHR ''B'' ''ALA'' 7) example_residue
              = Inr (r1, [])
          \<and> length (atoms r1) = length (atoms example_residue)
          \<and> map_of (locations (atoms r1 ! 0))
              = map_of (locations (atoms example_residue ! 0))
                ++ map_of (rev (locations (example_atom 2 '' N  '' CHR ''B'' ''ALA'' 7))))
   \<and> (\<exists>r1. Residue_add_atom (example_atom 2 '' N  '' CHR '' '' ''ALA'' 7) example_residue
              = Inr (r1, [])
          \<and> atoms r1 = atoms example_residue @ [example_atom 2 '' N  '' CHR '' '' ''ALA'' 7])
   \<and> map_sum id (\<lambda>p. map (\<lambda>a. (serial_number a, map fst (locations a))) (atoms (fst p)))
        (Residue_add_atom (example_atom 2 '' N  '' CHR ''B'' ''ALA'' 7) example_residue)
      = Inr [(1, [CHR '' '', CHR ''B''])]
   \<and> map_sum id (\<lambda>p. map (\<lambda>a. (serial_number a, map fst (locations a))) (atoms (fst p)))
        (Residue_add_atom (example_atom 2 '' N  '' CHR '' '' ''ALA'' 7) example_residue)
      = Inr [(1, [CHR '' '']), (2, [CHR '' ''])]"
proof -
  have h: "alternate_location_indicator (example_atom 2 '' N  '' CHR ''B'' ''ALA'' 7)
           = Inr CHR ''B''"
    "alternate_location_indicator (example_atom 2 '' N  '' CHR '' '' ''ALA'' 7)
     = Inr CHR '' ''"
    "map_of (atoms_by_name example_residue) '' N  '' = Some 0"
    "map_of (locations (atoms example_residue ! 0)) CHR ''B'' = None"
    "map_of (locations (atoms example_residue ! 0)) CHR '' '' \<noteq> None"
    by (simp_all add: alternate_location_indicator_def get_location_def example_atom_def
        example_residue_def)
  have g: "residue_number (example_atom s n c rn 7) = number example_residue"
    "insertion_code (example_atom s n c rn 7) = r_insertion_code example_residue"
    "name_with_spaces (example_atom s n c rn 7) = n"
    "0 < length (atoms example_residue)" for s n c rn
    by (simp_all add: example_atom_def example_residue_def)
  note t1 = C6_atom_name_present [OF h(1) g(1,2), of 0, unfolded g(3), OF h(3) g(4)]
  note t2 = C6_atom_name_present [OF h(2) g(1,2), of 0, unfolded g(3), OF h(3) g(4)]
  from t1 h(4) have a:
    "\<exists>r1. Residue_add_atom (example_atom 2 '' N  '' CHR ''B'' ''ALA'' 7) example_residue
            = Inr (r1, [])
        \<and> length (atoms r1) = length (atoms example_residue)
        \<and> map_of (locations (atoms r1 ! 0))
            = map_of (locations (atoms example_residue ! 0))
              ++ map_of (rev (locations (example_atom 2 '' N  '' CHR ''B'' ''ALA'' 7)))"
    by blast
  from t2 h(5) have b:
    "\<exists>r1. Residue_add_atom (example_atom 2 '' N  '' CHR '' '' ''ALA'' 7) example_residue
            = Inr (r1, [])
        \<and> atoms r1 = atoms example_residue @ [example_atom 2 '' N  '' CHR '' '' ''ALA'' 7]"
    by blast
  have e: "map_sum id (\<lambda>p. map (\<lambda>a. (serial_number a, map fst (locations a))) (atoms (fst p)))
        (Residue_add_atom (example_atom 2 '' N  '' CHR ''B'' ''ALA'' 7) example_residue)
      = Inr [(1, [CHR '' '', CHR ''B''])]"
    "map_sum id (\<lambda>p. map (\<lambda>a. (serial_number a, map fst (locations a))) (atoms (fst p)))
        (Residue_add_atom (example_atom 2 '' N  '' CHR '' '' ''ALA'' 7) example_residue)
      = Inr [(1, [CHR '' '']), (2, [CHR '' ''])]"
    by code_simp+
  from h a b e show ?thesis by (intro conjI)
qed

lemma Atom_str_serial:
  "Atom_str a = Inr line \<Longrightarrow> l_serial_number line = serial_number a"
  by (auto simp: Atom_str_def pdb_string_def and_then_def split: sum.splits if_splits)

lemma Residue_add_atom_fresh:
  assumes "alternate_location_indicator a = Inr alt"
  shows "Residue_add_atom a
           (Residue_init (residue_name_with_spaces a) (residue_number a) (insertion_code a)
              alt seg)
         = Inr (use_new_atom a
                  (Residue_init (residue_name_with_spaces a) (residue_number a)
                     (insertion_code a) alt seg), [])"
  using assms by (simp add: Residue_add_atom_def Residue_init_def)

lemma Residue_add_atom_same_slot:
  assumes "alternate_location_indicator a = Inr alt"
    and "residue_number a = number r" and "insertion_code a = r_insertion_code r"
    and "\<And>i. map_of (atoms_by_name r) (name_with_spaces a) = Some i \<Longrightarrow> i < length (atoms r)"
  shows "\<exists>r1. Residue_add_atom a r = Inr (r1, [])
           \<and> r_locations r1
               = (if map_of (r_locations r) alt = None
                  then r_locations r @ [(alt, residue_name_with_spaces a)]
                  else r_locations r)
           \<and> r_name_with_spaces r1 = r_name_with_spaces r
           \<and> number r1 = number r \<and> r_insertion_code r1 = r_insertion_code r"
proof (cases "map_of (atoms_by_name r) (name_with_spaces a)")
  case None
  with assms(1-3) show ?thesis
    by (auto simp: Residue_add_atom_def Let_def use_new_atom_def)
next
  case (Some i)
  from assms(4) [OF Some] have "i < length (atoms r)" .
  with Some assms(1-3) show ?thesis
    by (auto simp: Residue_add_atom_def Let_def use_new_atom_def)
qed

text \<open>
  \<^bold>\<open>C5 (as amended).\<close> A record whose residue number and insertion code are
  those of the Residue open on the chain, and whose residue name differs from that
  Residue's name. (Both atoms can be formatted for a message, and the name table of
  the Residue holds references to its Atoms, as in every chain the loader builds.)
  With a blank indicator one diagnostic is emitted and a new Residue holding the atom
  is appended to the chain. With a non-blank indicator no diagnostic is emitted, the
  atom goes into the open Residue, and the per-location name table of that Residue
  gains the record's residue name under the record's indicator if the indicator is
  not yet a key of the table; if it is a key already, the table is unchanged.
\<close>

theorem C5_name_differs_from_open_residue:
  assumes "current_residue c = Some cur"
    and "number cur = residue_number a" and "r_insertion_code cur = insertion_code a"
    and "r_name_with_spaces cur \<noteq> residue_name_with_spaces a"
    and "alternate_location_indicator a = Inr alt"
    and "Atom_str a = Inr line" and "atoms cur \<noteq> []"
    and "Atom_str (last (atoms cur)) = Inr line_before"
    and "\<And>i. map_of (atoms_by_name cur) (name_with_spaces a) = Some i
           \<Longrightarrow> i < length (atoms cur)"
  shows "(alt = CHR '' '' \<longrightarrow>
            Chain_add_atom a c
            = Inr (c\<lparr>residues := residues c
                       @ [use_new_atom a
                            (Residue_init (residue_name_with_spaces a) (residue_number a)
                               (insertion_code a) CHR '' '' (segment_id a))]\<rparr>,
                   [ConsecutiveResidues (serial_number a)
                      (serial_number (last (atoms cur)))]))
         \<and> (alt \<noteq> CHR '' '' \<longrightarrow>
            (\<exists>r1. Residue_add_atom a cur = Inr (r1, [])
               \<and> Chain_add_atom a c = Inr (c\<lparr>residues := butlast (residues c) @ [r1]\<rparr>, [])
               \<and> r_name_with_spaces r1 = r_name_with_spaces cur
               \<and> r_locations r1
                   = (if map_of (r_locations cur) alt = None
                      then r_locations cur @ [(alt, residue_name_with_spaces a)]
                      else r_locations cur)))"
proof (intro conjI impI)
  assume blank: "alt = CHR '' ''"
  from assms(1) have ne: "residues c \<noteq> []"
    by (auto simp: current_residue_def split: if_splits)
  let ?new = "Residue_init (residue_name_with_spaces a) (residue_number a)
                (insertion_code a) CHR '' '' (segment_id a) :: 'a residue"
  have w: "warn_consecutive a cur
           = Inr [ConsecutiveResidues (serial_number a) (serial_number (last (atoms cur)))]"
    using assms(6,7,8) Atom_str_serial [OF assms(6)] Atom_str_serial [OF assms(8)]
    by (simp add: warn_consecutive_def)
  have opened: "open_residue a c = Inr (c\<lparr>residues := residues c @ [?new]\<rparr>)"
    using assms(5) blank ne by (simp add: open_residue_def Chain_add_residue_def)
  have sel: "Chain_select_residue a c
             = Inr (c\<lparr>residues := residues c @ [?new]\<rparr>,
                    [ConsecutiveResidues (serial_number a) (serial_number (last (atoms cur)))])"
    using assms(1-5) blank w opened by (simp add: Chain_select_residue_def)
  have cur': "current_residue (c\<lparr>residues := residues c @ [?new]\<rparr>) = Some ?new"
    by (simp add: current_residue_def)
  show "Chain_add_atom a c
        = Inr (c\<lparr>residues := residues c @ [use_new_atom a ?new]\<rparr>,
               [ConsecutiveResidues (serial_number a) (serial_number (last (atoms cur)))])"
    using sel cur' Residue_add_atom_fresh [OF assms(5), of "segment_id a"] blank
    by (simp add: Chain_add_atom_def set_current_residue_def)
next
  assume other: "alt \<noteq> CHR '' ''"
  from Residue_add_atom_same_slot [OF assms(5) assms(2) [symmetric] assms(3) [symmetric] assms(9)]
  obtain r1 where r1: "Residue_add_atom a cur = Inr (r1, [])"
    "r_locations r1 = (if map_of (r_locations cur) alt = None
                       then r_locations cur @ [(alt, residue_name_with_spaces a)]
                       else r_locations cur)"
    "r_name_with_spaces r1 = r_name_with_spaces cur"
    by blast
  have sel: "Chain_select_residue a c = Inr (c, [])"
    using assms(1-5) other by (simp add: Chain_select_residue_def)
  have "Chain_add_atom a c = Inr (c\<lparr>residues := butlast (residues c) @ [r1]\<rparr>, [])"
    using sel assms(1) r1(1) by (simp add: Chain_add_atom_def set_current_residue_def)
  with r1 show "\<exists>r1. Residue_add_atom a cur = Inr (r1, [])
      \<and> Chain_add_atom a c = Inr (c\<lparr>residues := butlast (residues c) @ [r1]\<rparr>, [])
      \<and> r_name_with_spaces r1 = r_name_with_spaces cur
      \<and> r_locations r1
          = (if map_of (r_locations cur) alt = None
             then r_locations cur @ [(alt, residue_name_with_spaces a)]
             else r_locations cur)"
    by blast
qed

text \<open>
  \<^bold>\<open>C5 (as stated) fails.\<close> Two consecutive records of residue 7 with the
  names SER and THR, both with the indicator A: no diagnostic, one Residue with both
  atoms, and a name table that holds SER alone.
\<close>

theorem C5_name_table_counterexample:
  "map_sum id (\<lambda>r. (serial_numbers (fst r), name_tables (fst r), fst (snd r)))
     (PdbStructure_init fixed_point [atom_1_N_A_SER, atom_2_CA_A_THR] True)
   = Inr ([[[[1, 2]]]], [[[[(CHR ''A'', ''SER'')]]]], [])"
  by code_simp

theorem C5_name_differs_from_open_residue_witness:
  "current_residue example_chain = Some example_residue
   \<and> r_name_with_spaces example_residue \<noteq> ''GLY''
   \<and> alternate_location_indicator (example_atom 2 '' CA '' CHR '' '' ''GLY'' 7) = Inr CHR '' ''
   \<and> alternate_location_indicator (example_atom 2 '' CA '' CHR ''B'' ''GLY'' 7) = Inr CHR ''B''
   \<and> (\<exists>line. Atom_str (example_atom 2 '' CA '' CHR '' '' ''GLY'' 7) = Inr line)
   \<and> (\<exists>line. Atom_str (last (atoms example_residue)) = Inr line)
   \<and> Chain_add_atom (example_atom 2 '' CA '' CHR '' '' ''GLY'' 7) example_chain
       = Inr (example_chain
                \<lparr>residues := residues example_chain
                   @ [use_new_atom (example_atom 2 '' CA '' CHR '' '' ''GLY'' 7)
                        (Residue_init ''GLY'' 7 CHR '' '' CHR '' '' [])]\<rparr>,
              [ConsecutiveResidues 2 1])
   \<and> (\<exists>r1. Residue_add_atom (example_atom 2 '' CA '' CHR ''B'' ''GLY'' 7) example_residue
              = Inr (r1, [])
          \<and> Chain_add_atom (example_atom 2 '' CA '' CHR ''B'' ''GLY'' 7) example_chain
              = Inr (example_chain\<lparr>residues := butlast (residues example_chain) @ [r1]\<rparr>, [])
          \<and> r_locations r1 = [(CHR '' '', ''ALA''), (CHR ''B'', ''GLY'')])
   \<and> map_sum id (\<lambda>p. (map r_locations (residues (fst p)), snd p))
        (Chain_add_atom (example_atom 2 '' CA '' CHR '' '' ''GLY'' 7) example_chain)
      = Inr ([[(CHR '' '', ''ALA'')], [(CHR '' '', ''GLY'')]], [ConsecutiveResidues 2 1])
   \<and> map_sum id (\<lambda>p. (map r_locations (residues (fst p)), snd p))
        (Chain_add_atom (example_atom 2 '' CA '' CHR ''B'' ''GLY'' 7) example_chain)
      = Inr ([[(CHR '' '', ''ALA''), (CHR ''B'', ''GLY'')]], [])"
proof -
  have cur: "current_residue example_chain = Some example_residue"
    by (simp add: current_residue_def example_chain_def)
  have r: "number example_residue = 7" "r_insertion_code example_residue = CHR '' ''"
    "r_name_with_spaces example_residue = ''ALA''" "atoms example_residue \<noteq> []"
    "r_locations example_residue = [(CHR '' '', ''ALA'')]"
    "serial_number (last (atoms example_residue)) = 1"
    "map_of (atoms_by_name example_residue) '' CA '' = None"
    by (simp_all add: example_residue_def example_atom_def)
  have a: "residue_number (example_atom s n c rn k) = k"
    "insertion_code (example_atom s n c rn k) = CHR '' ''"
    "residue_name_with_spaces (example_atom s n c rn k) = rn"
    "name_with_spaces (example_atom s n c rn k) = n"
    "serial_number (example_atom s n c rn k) = s"
    "segment_id (example_atom s n c rn k) = []"
    "alternate_location_indicator (example_atom s n c rn k) = Inr c" for s n c rn k
    by (simp_all add: example_atom_def alternate_location_indicator_def get_location_def)
  have s1: "\<exists>line. Atom_str (example_atom 2 '' CA '' c ''GLY'' 7) = Inr line" for c
    by (simp add: Atom_str_def pdb_string_def alternate_location_indicator_def
        get_location_def example_atom_def)
  have s2: "\<exists>line. Atom_str (last (atoms example_residue)) = Inr line"
    by (simp add: Atom_str_def pdb_string_def alternate_location_indicator_def
        get_location_def example_residue_def example_atom_def)
  from s1 [of "CHR '' ''"] obtain l1 where
    l1: "Atom_str (example_atom 2 '' CA '' CHR '' '' ''GLY'' 7) = Inr l1" by blast
  from s1 [of "CHR ''B''"] obtain l2 where
    l2: "Atom_str (example_atom 2 '' CA '' CHR ''B'' ''GLY'' 7) = Inr l2" by blast
  from s2 obtain l0 where l0: "Atom_str (last (atoms example_residue)) = Inr l0" by blast
  have names: "r_name_with_spaces example_residue
               \<noteq> residue_name_with_spaces (example_atom 2 '' CA '' c ''GLY'' 7)" for c
    by (simp add: r a)
  have slot: "number example_residue = residue_number (example_atom 2 '' CA '' c ''GLY'' 7)"
    "r_insertion_code example_residue = insertion_code (example_atom 2 '' CA '' c ''GLY'' 7)"
    for c by (simp_all add: r a)
  have refs: "map_of (atoms_by_name example_residue)
                (name_with_spaces (example_atom 2 '' CA '' c ''GLY'' 7)) = Some i
              \<Longrightarrow> i < length (atoms example_residue)" for c i
    by (simp add: r a)
  note t1 = C5_name_differs_from_open_residue
      [OF cur slot names a(7) l1 r(4) l0 refs, unfolded a r]
  note t2 = C5_name_differs_from_open_residue
      [OF cur slot names a(7) l2 r(4) l0 refs, unfolded a r]
  from t1 have c1:
    "Chain_add_atom (example_atom 2 '' CA '' CHR '' '' ''GLY'' 7) example_chain
       = Inr (example_chain
                \<lparr>residues := residues example_chain
                   @ [use_new_atom (example_atom 2 '' CA '' CHR '' '' ''GLY'' 7)
                        (Residue_init ''GLY'' 7 CHR '' '' CHR '' '' [])]\<rparr>,
              [ConsecutiveResidues 2 1])"
    by simp
  from t2 have c2:
    "\<exists>r1. Residue_add_atom (example_atom 2 '' CA '' CHR ''B'' ''GLY'' 7) example_residue
              = Inr (r1, [])
          \<and> Chain_add_atom (example_atom 2 '' CA '' CHR ''B'' ''GLY'' 7) example_chain
              = Inr (example_chain\<lparr>residues := butlast (residues example_chain) @ [r1]\<rparr>, [])
          \<and> r_locations r1 = [(CHR '' '', ''ALA''), (CHR ''B'', ''GLY'')]"
    by auto
  have e: "map_sum id (\<lambda>p. (map r_locations (residues (fst p)), snd p))
        (Chain_add_atom (example_atom 2 '' CA '' CHR '' '' ''GLY'' 7) example_chain)
      = Inr ([[(CHR '' '', ''ALA'')], [(CHR '' '', ''GLY'')]], [ConsecutiveResidues 2 1])"
    "map_sum id (\<lambda>p. (map r_locations (residues (fst p)), snd p))
        (Chain_add_atom (example_atom 2 '' CA '' CHR ''B'' ''GLY'' 7) example_chain)
      = Inr ([[(CHR '' '', ''ALA''), (CHR ''B'', ''GLY'')]], [])"
    by code_simp+
  have n: "r_name_with_spaces example_residue \<noteq> ''GLY''" by (simp add: r)
  from cur n a(7) s1 s2 c1 c2 e show ?thesis by (intro conjI)
qed

section \<open>Model boundaries and re-serialization\<close>

lemma read_atom_number_resolver:
  assumes "read_atom_number s pdb = Inr (n, pdb1, w)"
  shows "residue_resolver pdb1 = residue_resolver pdb"
    and "next_atom_number pdb1 = next_atom_number pdb"
    and "atom_num_nondec_mode pdb \<noteq> None \<Longrightarrow> atom_num_nondec_mode pdb1 \<noteq> None"
  using assms
  by (auto simp: read_atom_number_def read_atom_number_except_def and_then_def
      residue_resolver_def split: sum.splits if_splits option.splits)

lemma read_residue_number_resolver:
  assumes "read_residue_number s pdb z = Inr (n, pdb1, w)"
  shows "atom_resolver pdb1 = atom_resolver pdb"
    and "next_residue_number pdb1 = next_residue_number pdb"
    and "residue_num_nondec_mode pdb \<noteq> None \<Longrightarrow> residue_num_nondec_mode pdb1 \<noteq> None"
  using assms
  by (auto simp: read_residue_number_def read_residue_number_except_def and_then_def
      atom_resolver_def split: sum.splits if_splits option.splits)

lemma Atom_init_resolver:
  assumes "Atom_init fl l pdb = Inr (a, pdb1, w)"
  shows "next_atom_number pdb1 = serial_number a + 1"
    and "next_residue_number pdb1 = residue_number a + 1"
    and "atom_num_nondec_mode pdb \<noteq> None \<Longrightarrow> atom_num_nondec_mode pdb1 \<noteq> None"
    and "residue_num_nondec_mode pdb \<noteq> None \<Longrightarrow> residue_num_nondec_mode pdb1 \<noteq> None"
proof -
  from assms obtain serial p1 w1 res_number p2 w2 and z :: atom_names where
    r1: "read_atom_number (slice 6 11 l) pdb = Inr (serial, p1, w1)" and
    r2: "read_residue_number (slice 22 26 l) p1 z = Inr (res_number, p2, w2)" and
    p: "pdb1 = p2\<lparr>next_atom_number := serial + 1, next_residue_number := res_number + 1\<rparr>"
    and a: "serial_number a = serial" "residue_number a = res_number"
    by (auto simp: Atom_init_def and_then_def split: sum.splits if_splits prod.splits)
  show "next_atom_number pdb1 = serial_number a + 1"
    and "next_residue_number pdb1 = residue_number a + 1"
    using p a by simp_all
  show "atom_num_nondec_mode pdb1 \<noteq> None" if "atom_num_nondec_mode pdb \<noteq> None"
    using read_atom_number_resolver(3) [OF r1 that] read_residue_number_resolver(1) [OF r2] p
    by (simp add: atom_resolver_def)
  show "residue_num_nondec_mode pdb1 \<noteq> None" if "residue_num_nondec_mode pdb \<noteq> None"
  proof -
    from read_atom_number_resolver(1) [OF r1] that
    have "residue_num_nondec_mode p1 \<noteq> None" by (simp add: residue_resolver_def)
    from read_residue_number_resolver(3) [OF r2 this] p show ?thesis by simp
  qed
qed

lemma PdbStructure_add_atom_resolver:
  assumes "PdbStructure_add_atom a pdb = Inr (pdb1, w)"
  shows "atom_resolver pdb1 = atom_resolver pdb \<and> residue_resolver pdb1 = residue_resolver pdb"
  using assms
  by (auto simp: PdbStructure_add_atom_def set_current_model_def PdbStructure_add_model_def
      atom_resolver_def residue_resolver_def and_then_def Let_def
      split: sum.splits option.splits if_splits)

lemma read_connect_resolver:
  assumes "read_connect l ps pdb = Inr (ns, pdb1, w)"
  shows "residue_resolver pdb1 = residue_resolver pdb
         \<and> next_atom_number pdb1 = next_atom_number pdb
         \<and> (atom_num_nondec_mode pdb \<noteq> None \<longrightarrow> atom_num_nondec_mode pdb1 \<noteq> None)"
  using assms
proof (induction ps arbitrary: pdb ns w)
  case Nil
  then show ?case by simp
next
  case (Cons p ps)
  from Cons.prems obtain n p1 w1 ns1 w2 where
    a: "read_atom_number (slice p (p + 5) l) pdb = Inr (n, p1, w1)" and
    b: "read_connect l ps p1 = Inr (ns1, pdb1, w2)"
    by (auto simp: and_then_def split: sum.splits prod.splits)
  show ?case
    using read_atom_number_resolver [OF a] Cons.IH [OF b] by auto
qed

text \<open>
  Where one turn of the loop leaves the two resolvers. A model-start marker resets
  both; a chain terminator resets the residue resolver and keeps the atom resolver;
  the end markers, a unit-cell record and an unrecognized line keep both; a
  connectivity record keeps the residue resolver and the atom counter and never
  unlocks the atom mode. A coordinate record is parsed against a PdbStructure whose
  resolvers are those before the turn, whether or not the turn first opens a model,
  and leaves the counters at the numbers read plus one; it never unlocks a mode.
\<close>

lemma resolver_reset_points:
  assumes "load_line fl l pdb state = Inr (pdb1, state1, w, stop)"
  shows "(record_kind l = ModelStart \<longrightarrow>
            atom_resolver pdb1 = (None, 1) \<and> residue_resolver pdb1 = (None, 1))
         \<and> (record_kind l = ChainTerminator \<longrightarrow>
            residue_resolver pdb1 = (None, 1) \<and> atom_resolver pdb1 = atom_resolver pdb)
         \<and> (record_kind l = ModelEnd \<or> record_kind l = EndStructure
             \<or> record_kind l = UnitCell \<or> record_kind l = Unrecognized \<longrightarrow>
            atom_resolver pdb1 = atom_resolver pdb
            \<and> residue_resolver pdb1 = residue_resolver pdb)
         \<and> (record_kind l = Connectivity \<longrightarrow>
            residue_resolver pdb1 = residue_resolver pdb
            \<and> next_atom_number pdb1 = next_atom_number pdb
            \<and> (atom_num_nondec_mode pdb \<noteq> None \<longrightarrow> atom_num_nondec_mode pdb1 \<noteq> None))
         \<and> (record_kind l = Coordinate \<longrightarrow>
            (\<exists>a pdb0 pdb2 w0.
               atom_resolver pdb0 = atom_resolver pdb
               \<and> residue_resolver pdb0 = residue_resolver pdb
               \<and> Atom_init fl l pdb0 = Inr (a, pdb2, w0)
               \<and> atom_resolver pdb1 = (atom_num_nondec_mode pdb2, serial_number a + 1)
               \<and> residue_resolver pdb1 = (residue_num_nondec_mode pdb2, residue_number a + 1))
            \<and> (atom_num_nondec_mode pdb \<noteq> None \<longrightarrow> atom_num_nondec_mode pdb1 \<noteq> None)
            \<and> (residue_num_nondec_mode pdb \<noteq> None \<longrightarrow>
                 residue_num_nondec_mode pdb1 \<noteq> None))"
proof (cases "record_kind l")
  case Coordinate
  define pdb0 where
    "pdb0 = (if state = NEW_MODEL
             then (case current_model pdb of
                     None \<Rightarrow> pdb
                   | Some m \<Rightarrow> PdbStructure_add_model (Model_init (m_number m + 1)) pdb)
             else pdb)"
  from Coordinate assms obtain a pdb2 w0 w1 where
    i: "Atom_init fl l pdb0 = Inr (a, pdb2, w0)" and
    ad: "PdbStructure_add_atom a pdb2 = Inr (pdb1, w1)"
    unfolding pdb0_def
    by (auto simp: load_line_def and_then_def split: sum.splits prod.splits if_splits
        option.splits)
  have f0: "atom_resolver pdb0 = atom_resolver pdb"
    "residue_resolver pdb0 = residue_resolver pdb"
    by (auto simp: pdb0_def atom_resolver_def residue_resolver_def PdbStructure_add_model_def
        split: option.splits)
  from PdbStructure_add_atom_resolver [OF ad] Atom_init_resolver(1,2) [OF i]
  have f1: "atom_resolver pdb1 = (atom_num_nondec_mode pdb2, serial_number a + 1)"
    "residue_resolver pdb1 = (residue_num_nondec_mode pdb2, residue_number a + 1)"
    by (simp_all add: atom_resolver_def residue_resolver_def)
  have f2: "atom_num_nondec_mode pdb1 \<noteq> None" if "atom_num_nondec_mode pdb \<noteq> None"
    using Atom_init_resolver(3) [OF i] f0 f1 that by (simp add: atom_resolver_def)
  have f3: "residue_num_nondec_mode pdb1 \<noteq> None" if "residue_num_nondec_mode pdb \<noteq> None"
    using Atom_init_resolver(4) [OF i] f0 f1 that by (simp add: residue_resolver_def)
  have ex: "\<exists>a pdb0 pdb2 w0.
      atom_resolver pdb0 = atom_resolver pdb
      \<and> residue_resolver pdb0 = residue_resolver pdb
      \<and> Atom_init fl l pdb0 = Inr (a, pdb2, w0)
      \<and> atom_resolver pdb1 = (atom_num_nondec_mode pdb2, serial_number a + 1)
      \<and> residue_resolver pdb1 = (residue_num_nondec_mode pdb2, residue_number a + 1)"
    using f0 i f1 by blast
  show ?thesis using ex f2 f3 by (simp add: Coordinate)
next
  case ModelStart
  with assms show ?thesis
    by (auto simp: load_line_def atom_resolver_def residue_resolver_def
        reset_atom_numbers_def reset_residue_numbers_def)
next
  case ModelEnd
  with assms show ?thesis
    by (auto simp: load_line_def end_of_model_def atom_resolver_def residue_resolver_def
        set_current_model_def and_then_def split: sum.splits option.splits if_splits)
next
  case EndStructure
  with assms show ?thesis
    by (auto simp: load_line_def end_of_model_def atom_resolver_def residue_resolver_def
        set_current_model_def and_then_def split: sum.splits option.splits if_splits)
next
  case ChainTerminator
  with assms show ?thesis
    by (auto simp: load_line_def atom_resolver_def residue_resolver_def
        reset_residue_numbers_def set_current_model_def and_then_def
        split: sum.splits option.splits)
next
  case UnitCell
  with assms show ?thesis
    by (auto simp: load_line_def atom_resolver_def residue_resolver_def and_then_def
        split: sum.splits)
next
  case Connectivity
  with assms obtain ns p1 where
    c: "read_connect l (connect_positions l) pdb = Inr (ns, p1, w)" and
    r: "atom_resolver pdb1 = atom_resolver p1" "residue_resolver pdb1 = residue_resolver p1"
    by (auto simp: load_line_def and_then_def set_current_model_def atom_resolver_def
        residue_resolver_def split: sum.splits prod.splits option.splits)
  from read_connect_resolver [OF c] r Connectivity show ?thesis
    by (auto simp: atom_resolver_def residue_resolver_def)
next
  case Unrecognized
  with assms show ?thesis by (simp add: load_line_def)
qed

lemma load_resets_first:
  "PdbStructure_load fl input_stream pdb
   = PdbStructure_load fl input_stream
       (pdb\<lparr>atom_num_nondec_mode := None, next_atom_number := 1,
            residue_num_nondec_mode := None, next_residue_number := 1\<rparr>)"
  by (simp add: PdbStructure_load_def reset_atom_numbers_def reset_residue_numbers_def)

text \<open>
  \<^bold>\<open>C1.\<close> A load starts from reset resolvers (\<open>load_resets_first\<close>) and
  the marker lines reset as \<open>resolver_reset_points\<close> says. The claim has both
  resolvers reset at every new-model boundary, also
  for a model that a coordinate record opens after a model-end marker. The source
  resets them after \<^verbatim>\<open>_add_model\<close> in the branch of the model-start
  marker only; the branch of the coordinate record calls \<^verbatim>\<open>_add_model\<close>
  and parses the record against the state the last model left. In the first input
  the first model ends with the hexadecimal decoder locked (serial 99999, then the
  sentinel \<^verbatim>\<open>186a0\<close>); after the model-end marker the serial field
  \<^verbatim>\<open>10\<close> of the implicitly opened second model is read as 16, and the
  mode is still locked at the end. With a model-start marker before that record
  (the second input) the field reads 10.
\<close>

theorem C1_implicit_model_not_reset:
  "map_sum id (\<lambda>r. (serial_numbers (fst r), atom_num_nondec_mode (fst r)))
     (PdbStructure_init fixed_point implicit_model_file True)
   = Inr ([[[[99999, 100000]]], [[[16]]]], Some Hex)
   \<and> map_sum id (\<lambda>r. (serial_numbers (fst r), atom_num_nondec_mode (fst r)))
       (PdbStructure_init fixed_point explicit_model_file True)
     = Inr ([[[[99999, 100000]]], [[[10]]]], None)"
  by code_simp

text \<open>
  \<^bold>\<open>C3.\<close> A single-model file with the serial numbers 1 and 2, each atom with
  one location, loads; serializing the loaded Structure raises AttributeError
  (the defect of \<^verbatim>\<open>Atom.write\<close> shown for C2) instead of producing
  lines numbered 1 and 2.
\<close>

theorem C3_reserialization_raises:
  "map_sum id (\<lambda>r. (serial_numbers (fst r), PdbStructure_write (fst r)))
     (PdbStructure_init fixed_point single_model_file True)
   = Inr ([[[[1, 2]]]], Inl AttributeError)"
  by code_simp

end
